theory Spec2Isabelle
  imports Main
begin

section \<open>JavaScript strings and values\<close>

text \<open>
  Strings are lists of characters. The model covers the one-byte range of code units:
  \<open>length\<close> is JavaScript's \<open>.length\<close> there. An optional property is an
  \<open>option\<close>; a thrown \<open>Error\<close> is a value carrying its \<open>.message\<close>.
  The platform's \<open>String.prototype.toUpperCase\<close> is not part of this program: where the
  code calls it, the model takes it as a parameter \<open>upper\<close>.
\<close>

datatype js_error = Error (error_message: string)

definition truthy :: "string \<Rightarrow> bool" where
  \<comment> \<open>a string in a boolean position: the empty string is falsy\<close>
  "truthy s = (s \<noteq> [])"

definition truthy_opt :: "string option \<Rightarrow> bool" where
  \<comment> \<open>a \<open>string | null | undefined\<close> in a boolean position\<close>
  "truthy_opt v = (case v of None \<Rightarrow> False | Some s \<Rightarrow> truthy s)"

definition or_else :: "string \<Rightarrow> string \<Rightarrow> string" where
  \<comment> \<open>\<open>s || d\<close> on strings\<close>
  "or_else s d = (if truthy s then s else d)"

definition or_else_opt :: "string option \<Rightarrow> string \<Rightarrow> string" where
  \<comment> \<open>\<open>v || d\<close> where \<open>v\<close> may be undefined\<close>
  "or_else_opt v d = (if truthy_opt v then the v else d)"

definition is_digit :: "char \<Rightarrow> bool" where
  \<comment> \<open>the class \<open>\d\<close>, which is \<open>[0-9]\<close>\<close>
  "is_digit c = (c \<in> set ''0123456789'')"




definition remove_non_digits :: "string \<Rightarrow> string" where
  \<comment> \<open>\<open>.replace(/[^0-9]/g, '')\<close>\<close>
  "remove_non_digits s = filter is_digit s"

fun split :: "char \<Rightarrow> string \<Rightarrow> string list" where
  \<comment> \<open>\<open>s.split(sep)\<close> for a one-character separator: never the empty array\<close>
  "split sep [] = [[]]"
| "split sep (c # cs) =
     (if c = sep then [] # split sep cs
      else (case split sep cs of
              [] \<Rightarrow> [[c]]
            | w # ws \<Rightarrow> (c # w) # ws))"

definition pop :: "'a list \<Rightarrow> 'a option" where
  \<comment> \<open>the value \<open>Array.prototype.pop\<close> returns: the last element, undefined on []\<close>
  "pop xs = (if xs = [] then None else Some (last xs))"

subsection \<open>The regular-expression fragment of the sign-up form\<close>

text \<open>
  A pattern \<open>^a1{n1} a2{n2} ... $\<close>: a sequence of atoms, each repeated an exact number
  of times, anchored at both ends of the input.
\<close>

datatype atom = Digit | Lit char

fun atom_ok :: "atom \<Rightarrow> char \<Rightarrow> bool" where
  "atom_ok Digit c = is_digit c"
| "atom_ok (Lit l) c = (c = l)"

fun regex_test :: "(atom \<times> nat) list \<Rightarrow> string \<Rightarrow> bool" where
  "regex_test [] s = (s = [])"
| "regex_test ((a, 0) # p) s = regex_test p s"
| "regex_test ((a, Suc n) # p) [] = False"
| "regex_test ((a, Suc n) # p) (c # s) = (atom_ok a c \<and> regex_test ((a, n) # p) s)"

definition cnic_regex :: "(atom \<times> nat) list" where
  \<comment> \<open>\<open>/^\d{5}-\d{7}-\d{1}$/\<close>\<close>
  "cnic_regex = [(Digit, 5), (Lit CHR ''-'', 1), (Digit, 7), (Lit CHR ''-'', 1), (Digit, 1)]"

section \<open>types.ts\<close>

datatype UserRole = DOCTOR | PATIENT | GUEST

fun UserRole_value :: "UserRole \<Rightarrow> string" where
  "UserRole_value DOCTOR = ''DOCTOR''"
| "UserRole_value PATIENT = ''PATIENT''"
| "UserRole_value GUEST = ''GUEST''"

record MedicalFile =
  file_id :: string
  fileName :: string
  fileType :: string
  fileUrl :: string
  uploadedAt :: string

record Treatment =
  treatment_id :: string
  patientId :: string
  doctorId :: string
  doctorName :: string
  timestamp :: string
  treatment_diagnosis :: string
  treatment_medication :: string
  treatment_notes :: string
  files :: "MedicalFile list option"

record User =
  user_id :: string
  user_role :: UserRole
  user_name :: string
  user_email :: string
  user_cnic :: "string option"
  user_isVerified :: "bool option"

record PatientProfile = User +
  medicalHistory :: "string list"
  treatments :: "Treatment list"

section \<open>services/api.ts: the API gateway\<close>

record 'd ApiResponse =
  success :: bool
  message :: "string option"
  data :: "'d option"
  errors :: "string list option"

record SignupRequest =
  signup_cnic :: string
  signup_name :: "string option"
  signup_email :: string
  signup_password :: string
  signup_role :: "string option"

record SignupUser =
  su_id :: string
  su_email :: string
  su_cnic :: string
  su_isVerified :: bool

record SignupResponse =
  signup_user :: SignupUser

record VerifyOtpRequest =
  verify_email :: string
  verify_otp :: string

record VerifyOtpUser =
  vu_id :: string
  vu_email :: string
  vu_cnic :: string
  vu_isVerified :: bool
  vu_role :: string

record VerifyOtpResponse =
  verify_user :: VerifyOtpUser
  verify_token :: string

record LoginRequest =
  login_email :: string
  login_password :: string
  login_role :: "string option"

record LoginUser =
  lu_id :: string
  lu_email :: string
  lu_cnic :: "string option"
  lu_isVerified :: bool
  lu_role :: string

record LoginResponse =
  login_user :: LoginUser
  login_token :: string

record UserProfile =
  up_id :: string
  up_role :: string
  up_name :: string
  up_email :: string
  up_cnic :: "string option"
  up_isVerified :: bool
  up_treatments :: "Treatment list option"
  up_medicalHistory :: "string list option"

record ProfileResponse =
  profile_user :: UserProfile

record PatientsResponse =
  response_patients :: "PatientProfile list"

record TreatmentRequest =
  new_patientId :: string
  new_diagnosis :: string
  new_medication :: string
  new_notes :: string
  new_files :: "MedicalFile list"

text \<open>The argument of \<open>JSON.stringify\<close>, kept as the payload it serialises.\<close>

datatype RequestBody =
    SignupBody SignupRequest
  | VerifyOtpBody VerifyOtpRequest
  | ResendOtpBody string
  | LoginBody LoginRequest
  | TreatmentBody TreatmentRequest

record RequestInit =
  init_method :: "string option"
  init_headers :: "(string \<rightharpoonup> string) option"
  init_body :: "RequestBody option"

record Request =
  url :: string
  req_method :: "string option"
  req_headers :: "string \<rightharpoonup> string"
  req_body :: "RequestBody option"

text \<open>
  What \<open>fetch\<close> gives back. The promise rejects (no response: the transport's own error),
  or resolves to a response with its \<open>ok\<close> flag and the outcome of \<open>response.json()\<close>,
  which itself rejects on a body that is not JSON.
\<close>

record 'd Response =
  ok :: bool
  json :: "js_error + 'd ApiResponse"

datatype 'd fetch_result = Rejected js_error | Resolved "'d Response"

definition default_api_url :: string where
  "default_api_url = ''https://aytsam.onrender.com/api''"

definition API_BASE_URL :: "string option \<Rightarrow> string" where
  \<comment> \<open>from \<open>VITE_API_URL\<close>, one trailing slash removed\<close>
  "API_BASE_URL env =
     (let rawApiUrl = or_else_opt env default_api_url
      in if rawApiUrl \<noteq> [] \<and> last rawApiUrl = CHR ''/'' then butlast rawApiUrl else rawApiUrl)"

definition generic_error :: string where
  "generic_error = ''An error occurred''"

definition handleApiResponse :: "'d Response \<Rightarrow> js_error + 'd ApiResponse" where
  "handleApiResponse response =
     (case json response of
        Inl e \<Rightarrow> Inl e
      | Inr d \<Rightarrow>
          if \<not> ok response then Inl (Error (or_else_opt (message d) generic_error))
          else Inr d)"

definition no_options :: RequestInit where
  "no_options = \<lparr>init_method = None, init_headers = None, init_body = None\<rparr>"

definition default_headers :: "string \<rightharpoonup> string" where
  "default_headers =
     [''Content-Type'' \<mapsto> ''application/json'', ''ngrok-skip-browser-warning'' \<mapsto> ''true'']"

definition request_of :: "string \<Rightarrow> string option \<Rightarrow> string \<Rightarrow> RequestInit \<Rightarrow> Request" where
  \<comment> \<open>the \<open>url\<close> and \<open>config\<close> that \<open>apiRequest\<close> hands to \<open>fetch\<close>\<close>
  "request_of base token endpoint options =
     (let config_headers = (case init_headers options of
                              None \<Rightarrow> default_headers
                            | Some h \<Rightarrow> h);
          hs = (if truthy_opt token
                then config_headers(''Authorization'' \<mapsto> ''Bearer '' @ the token)
                else config_headers)
      in \<lparr>url = base @ endpoint, req_method = init_method options,
          req_headers = hs, req_body = init_body options\<rparr>)"

definition apiRequest ::
  "(Request \<Rightarrow> 'd fetch_result) \<Rightarrow> string \<Rightarrow> string option \<Rightarrow> string \<Rightarrow> RequestInit
     \<Rightarrow> Request \<times> (js_error + 'd ApiResponse)" where
  \<comment> \<open>returns the request issued together with the outcome; a caught error is rethrown\<close>
  "apiRequest fetch base token endpoint options =
     (let req = request_of base token endpoint options
      in (req, case fetch req of
                 Rejected e \<Rightarrow> Inl e
               | Resolved response \<Rightarrow> handleApiResponse response))"

definition post :: "RequestBody \<Rightarrow> RequestInit" where
  "post b = \<lparr>init_method = Some ''POST'', init_headers = None, init_body = Some b\<rparr>"

definition authApi_signup ::
  "(Request \<Rightarrow> SignupResponse fetch_result) \<Rightarrow> string \<Rightarrow> string option \<Rightarrow> SignupRequest
     \<Rightarrow> Request \<times> (js_error + SignupResponse ApiResponse)" where
  "authApi_signup fetch base token d = apiRequest fetch base token ''/auth/signup'' (post (SignupBody d))"

definition authApi_verifyOtp ::
  "(Request \<Rightarrow> VerifyOtpResponse fetch_result) \<Rightarrow> string \<Rightarrow> string option \<Rightarrow> VerifyOtpRequest
     \<Rightarrow> Request \<times> (js_error + VerifyOtpResponse ApiResponse)" where
  "authApi_verifyOtp fetch base token d =
     apiRequest fetch base token ''/auth/verify-otp'' (post (VerifyOtpBody d))"

definition authApi_resendOtp ::
  "(Request \<Rightarrow> unit fetch_result) \<Rightarrow> string \<Rightarrow> string option \<Rightarrow> string
     \<Rightarrow> Request \<times> (js_error + unit ApiResponse)" where
  "authApi_resendOtp fetch base token e =
     apiRequest fetch base token ''/auth/resend-otp'' (post (ResendOtpBody e))"

definition authApi_login ::
  "(Request \<Rightarrow> LoginResponse fetch_result) \<Rightarrow> string \<Rightarrow> string option \<Rightarrow> LoginRequest
     \<Rightarrow> Request \<times> (js_error + LoginResponse ApiResponse)" where
  "authApi_login fetch base token d = apiRequest fetch base token ''/auth/login'' (post (LoginBody d))"

definition authApi_getProfile ::
  "(Request \<Rightarrow> ProfileResponse fetch_result) \<Rightarrow> string \<Rightarrow> string option
     \<Rightarrow> Request \<times> (js_error + ProfileResponse ApiResponse)" where
  "authApi_getProfile fetch base token = apiRequest fetch base token ''/auth/profile'' no_options"

definition authApi_getPatients ::
  "(Request \<Rightarrow> PatientsResponse fetch_result) \<Rightarrow> string \<Rightarrow> string option
     \<Rightarrow> Request \<times> (js_error + PatientsResponse ApiResponse)" where
  "authApi_getPatients fetch base token = apiRequest fetch base token ''/auth/patients'' no_options"

definition authApi_addTreatment ::
  "(Request \<Rightarrow> unit fetch_result) \<Rightarrow> string \<Rightarrow> string option \<Rightarrow> TreatmentRequest
     \<Rightarrow> Request \<times> (js_error + unit ApiResponse)" where
  "authApi_addTreatment fetch base token d =
     apiRequest fetch base token ''/auth/treatments'' (post (TreatmentBody d))"

definition authApi_deleteTreatment ::
  "(Request \<Rightarrow> unit fetch_result) \<Rightarrow> string \<Rightarrow> string option \<Rightarrow> string
     \<Rightarrow> Request \<times> (js_error + unit ApiResponse)" where
  "authApi_deleteTreatment fetch base token i =
     apiRequest fetch base token (''/auth/treatments/'' @ i)
       \<lparr>init_method = Some ''DELETE'', init_headers = None, init_body = None\<rparr>"

text \<open>
  The browser as the components see it: the \<open>authToken\<close> entry of \<open>localStorage\<close>, the
  requests handed to \<open>fetch\<close> so far, and the messages shown through \<open>alert\<close>.
\<close>

record Browser =
  authToken :: "string option"
  sent :: "Request list"
  alerts :: "string list"

definition setToken :: "string \<Rightarrow> 'a Browser_scheme \<Rightarrow> 'a Browser_scheme" where
  "setToken token b = b\<lparr>authToken := Some token\<rparr>"

definition getToken :: "'a Browser_scheme \<Rightarrow> string option" where
  "getToken b = authToken b"

definition removeToken :: "'a Browser_scheme \<Rightarrow> 'a Browser_scheme" where
  "removeToken b = b\<lparr>authToken := None\<rparr>"

definition isAuthenticated :: "'a Browser_scheme \<Rightarrow> bool" where
  "isAuthenticated b = truthy_opt (getToken b)"

definition logout :: "'a Browser_scheme \<Rightarrow> 'a Browser_scheme" where
  "logout b = removeToken b"

definition fetched :: "Request \<Rightarrow> 'a Browser_scheme \<Rightarrow> 'a Browser_scheme" where
  \<comment> \<open>records that \<open>fetch\<close> was called with this request\<close>
  "fetched req b = b\<lparr>sent := sent b @ [req]\<rparr>"

section \<open>components/AuthScreen.tsx: the auth flow controller\<close>

datatype AuthMode = signin | signup

datatype View = role_selection | form | otp_verification

text \<open>
  The component's state variables, on top of the browser. \<open>loginSuccess\<close> collects the
  calls of the \<open>onLoginSuccess\<close> property and \<open>signupSuccess\<close> those of
  \<open>onSignupSuccess\<close>, each with its user and token.
\<close>

record AuthScreen = Browser +
  selectedRole :: "UserRole option"
  authMode :: AuthMode
  view :: View
  name :: string
  email :: string
  password :: string
  cnic :: string
  otpInput :: string
  otpEmail :: string
  error :: string
  successMsg :: string
  resendCooldown :: int
  isLoading :: bool
  isOtpLoading :: bool
  isResendLoading :: bool
  loginSuccess :: "(User \<times> string) list"
  signupSuccess :: "(User \<times> string) list"

definition AuthScreen_init :: "string option \<Rightarrow> AuthScreen" where
  \<comment> \<open>the state at mount, in a browser holding the given token\<close>
  "AuthScreen_init token =
     \<lparr>authToken = token, sent = [], alerts = [],
      selectedRole = None, authMode = signin, view = role_selection,
      name = [], email = [], password = [], cnic = [],
      otpInput = [], otpEmail = [], error = [], successMsg = [],
      resendCooldown = 0, isLoading = False, isOtpLoading = False, isResendLoading = False,
      loginSuccess = [], signupSuccess = []\<rparr>"

definition tick :: "AuthScreen \<Rightarrow> AuthScreen" where
  \<comment> \<open>one firing of the interval, which is armed only while the countdown is positive\<close>
  "tick s = (if resendCooldown s > 0 then s\<lparr>resendCooldown := resendCooldown s - 1\<rparr> else s)"

definition shows_form :: "AuthScreen \<Rightarrow> bool" where
  \<comment> \<open>the credential form, with its submit button, is rendered\<close>
  "shows_form s = (view s = form \<and> selectedRole s \<noteq> None)"

definition shows_otp :: "AuthScreen \<Rightarrow> bool" where
  \<comment> \<open>the code entry, with its verify and resend buttons, is rendered\<close>
  "shows_otp s = (view s = otp_verification \<and> truthy (otpEmail s))"

definition onChange_otp :: "string \<Rightarrow> AuthScreen \<Rightarrow> AuthScreen" where
  \<comment> \<open>typing into the code input\<close>
  "onChange_otp v s = s\<lparr>otpInput := remove_non_digits v\<rparr>"

definition handleRoleSelect :: "UserRole \<Rightarrow> AuthScreen \<Rightarrow> AuthScreen" where
  "handleRoleSelect r s = s\<lparr>selectedRole := Some r, view := form, error := [], successMsg := []\<rparr>"

definition handleResendOTP ::
  "(Request \<Rightarrow> unit fetch_result) \<Rightarrow> string \<Rightarrow> AuthScreen \<Rightarrow> AuthScreen" where
  "handleResendOTP fetch base s =
     (if \<not> truthy (otpEmail s) \<or> resendCooldown s > 0 then s
      else
        (let s1 = s\<lparr>isResendLoading := True, error := []\<rparr>;
             (req, res) = authApi_resendOtp fetch base (authToken s1) (otpEmail s);
             s2 = fetched req s1;
             s3 = (case res of
                     Inl e \<Rightarrow>
                       s2\<lparr>error := or_else (error_message e) ''Failed to resend code. Please try again.''\<rparr>
                   | Inr response \<Rightarrow>
                       if success response
                       then s2\<lparr>resendCooldown := 120, otpInput := [], error := []\<rparr>
                       else s2)
         in s3\<lparr>isResendLoading := False\<rparr>))"

definition handleAction ::
  "(Request \<Rightarrow> LoginResponse fetch_result) \<Rightarrow> (Request \<Rightarrow> SignupResponse fetch_result)
     \<Rightarrow> string \<Rightarrow> AuthScreen \<Rightarrow> AuthScreen" where
  "handleAction fetch_login fetch_signup base s =
     (case selectedRole s of
        None \<Rightarrow> s
      | Some r \<Rightarrow>
        (let s1 = s\<lparr>error := [], successMsg := [], isLoading := True\<rparr>;
             s3 =
               (if authMode s = signin then
                  (let (req, res) = authApi_login fetch_login base (authToken s1)
                         \<lparr>login_email = email s, login_password = password s,
                          login_role = Some (UserRole_value r)\<rparr>;
                       s2 = fetched req s1
                   in case res of
                        Inl e \<Rightarrow>
                          s2\<lparr>error := or_else (error_message e) ''An error occurred. Please try again.''\<rparr>
                      | Inr response \<Rightarrow>
                          (case data response of
                             None \<Rightarrow> s2
                           | Some d \<Rightarrow>
                               if \<not> success response then s2
                               else
                                 (let stored = setToken (login_token d) s2;
                                      user = \<lparr>user_id = lu_id (login_user d),
                                              user_role = (if lu_role (login_user d) = ''patient''
                                                           then PATIENT else DOCTOR),
                                              user_name = [],
                                              user_email = lu_email (login_user d),
                                              user_cnic = lu_cnic (login_user d),
                                              user_isVerified = Some (lu_isVerified (login_user d))\<rparr>
                                  in stored\<lparr>loginSuccess :=
                                              loginSuccess stored @ [(user, login_token d)]\<rparr>)))
                else if \<not> truthy (name s) \<or> \<not> truthy (email s) \<or> \<not> truthy (cnic s)
                        \<or> \<not> truthy (password s)
                  then s1\<lparr>error := ''All fields are required.''\<rparr>
                else if \<not> regex_test cnic_regex (cnic s)
                  then s1\<lparr>error := ''CNIC must be in format XXXXX-XXXXXXX-X''\<rparr>
                else if length (password s) < 6
                  then s1\<lparr>error := ''Password must be at least 6 characters long.''\<rparr>
                else
                  (let (req, res) = authApi_signup fetch_signup base (authToken s1)
                         \<lparr>signup_cnic = cnic s, signup_name = Some (name s),
                          signup_email = email s, signup_password = password s,
                          signup_role = Some (UserRole_value r)\<rparr>;
                       s2 = fetched req s1
                   in case res of
                        Inl e \<Rightarrow>
                          s2\<lparr>error := or_else (error_message e) ''An error occurred. Please try again.''\<rparr>
                      | Inr response \<Rightarrow>
                          if success response
                          then s2\<lparr>otpEmail := email s, view := otp_verification,
                                  resendCooldown := 300\<rparr>
                          else s2))
         in s3\<lparr>isLoading := False\<rparr>))"

definition handleVerifyOTP ::
  "(Request \<Rightarrow> VerifyOtpResponse fetch_result) \<Rightarrow> string \<Rightarrow> AuthScreen \<Rightarrow> AuthScreen" where
  "handleVerifyOTP fetch base s =
     (if \<not> truthy (otpEmail s) \<or> length (otpInput s) \<noteq> 6 \<or> selectedRole s = None then s
      else
        (let s1 = s\<lparr>isOtpLoading := True, error := []\<rparr>;
             (req, res) = authApi_verifyOtp fetch base (authToken s1)
                            \<lparr>verify_email = otpEmail s, verify_otp = otpInput s\<rparr>;
             s2 = fetched req s1;
             s3 = (case res of
                     Inl e \<Rightarrow>
                       s2\<lparr>error := or_else (error_message e) ''Verification failed. Please try again.''\<rparr>
                   | Inr response \<Rightarrow>
                       if success response \<and> data response \<noteq> None
                       then s2\<lparr>authMode := signin, view := form, otpInput := [], otpEmail := [],
                               successMsg :=
                                 ''Account verified successfully. Please sign in to continue.''\<rparr>
                       else s2)
         in s3\<lparr>isOtpLoading := False\<rparr>))"

section \<open>App.tsx: session bootstrap and the patient roster\<close>

record App = Browser +
  currentUser :: "User option"
  patients :: "PatientProfile list"
  doctors :: "User list"
  app_isLoading :: bool

definition MOCK_DOCTOR :: User where
  "MOCK_DOCTOR =
     \<lparr>user_id = ''doc-001'', user_role = DOCTOR, user_name = ''Dr. Sarah Mitchell'',
      user_email = ''sarah.m@hospital.com'', user_cnic = None, user_isVerified = None\<rparr>"

definition App_init :: "string option \<Rightarrow> App" where
  \<comment> \<open>the state at application start, in a browser holding the given token\<close>
  "App_init token =
     \<lparr>authToken = token, sent = [], alerts = [],
      currentUser = None, patients = [], doctors = [MOCK_DOCTOR], app_isLoading = True\<rparr>"

datatype Screen = LoadingScreen | DashboardScreen User | AuthScreenScreen

definition screen :: "App \<Rightarrow> Screen" where
  \<comment> \<open>what \<open>main\<close> renders\<close>
  "screen a =
     (if app_isLoading a then LoadingScreen
      else case currentUser a of
             Some u \<Rightarrow> DashboardScreen u
           | None \<Rightarrow> AuthScreenScreen)"

definition initializeAuth ::
  "(Request \<Rightarrow> ProfileResponse fetch_result) \<Rightarrow> (Request \<Rightarrow> PatientsResponse fetch_result)
     \<Rightarrow> string \<Rightarrow> App \<Rightarrow> App" where
  "initializeAuth fetch_profile fetch_patients base a =
     (let token = getToken a;
          a4 =
            (if \<not> truthy_opt token then a
             else
               (let (req, res) = authApi_getProfile fetch_profile base (authToken a);
                    a1 = fetched req a
                in case res of
                     Inl e \<Rightarrow> removeToken a1
                   | Inr response \<Rightarrow>
                       (case data response of
                          None \<Rightarrow> a1
                        | Some d \<Rightarrow>
                            if \<not> success response then a1
                            else
                              (let user = profile_user d;
                                   a2 = a1\<lparr>currentUser := Some
                                          \<lparr>user_id = up_id user,
                                           user_role = (if up_role user = ''patient''
                                                        then PATIENT else DOCTOR),
                                           user_name = or_else (up_name user) (up_email user),
                                           user_email = up_email user,
                                           user_cnic = up_cnic user,
                                           user_isVerified = Some (up_isVerified user)\<rparr>\<rparr>
                               in if up_role user = ''doctor'' then
                                    (let (req2, res2) =
                                           authApi_getPatients fetch_patients base (authToken a2);
                                         a3 = fetched req2 a2
                                     in case res2 of
                                          Inl e \<Rightarrow> a3
                                        | Inr patientsResponse \<Rightarrow>
                                            (case data patientsResponse of
                                               None \<Rightarrow> a3
                                             | Some pd \<Rightarrow>
                                                 if success patientsResponse
                                                 then a3\<lparr>patients := response_patients pd\<rparr>
                                                 else a3))
                                  else if up_role user = ''patient'' then
                                    a2\<lparr>patients :=
                                         [\<lparr>user_id = up_id user, user_role = PATIENT,
                                           user_name = up_name user, user_email = up_email user,
                                           user_cnic = up_cnic user,
                                           user_isVerified = Some (up_isVerified user),
                                           medicalHistory =
                                             (case up_medicalHistory user of
                                                Some h \<Rightarrow> h | None \<Rightarrow> []),
                                           treatments =
                                             (case up_treatments user of
                                                Some ts \<Rightarrow> ts | None \<Rightarrow> [])\<rparr>]\<rparr>
                                  else a2))))
      in a4\<lparr>app_isLoading := False\<rparr>)"

definition handleLogout :: "App \<Rightarrow> App" where
  "handleLogout a = (logout a)\<lparr>currentUser := None\<rparr>"

definition deleteTreatment ::
  "(Request \<Rightarrow> unit fetch_result) \<Rightarrow> string \<Rightarrow> string \<Rightarrow> string \<Rightarrow> App \<Rightarrow> App" where
  "deleteTreatment fetch base pid tid a =
     (case currentUser a of
        None \<Rightarrow> a
      | Some u \<Rightarrow>
          if user_role u \<noteq> PATIENT then a
          else
            (let (req, res) = authApi_deleteTreatment fetch base (authToken a) tid;
                 a1 = fetched req a
             in case res of
                  Inl e \<Rightarrow> a1\<lparr>alerts := alerts a1 @ [''Failed to delete record. Please try again.'']\<rparr>
                | Inr response \<Rightarrow>
                    if success response
                    then a1\<lparr>patients :=
                              map (\<lambda>p. if user_id p = pid
                                        then p\<lparr>treatments :=
                                                 filter (\<lambda>t. treatment_id t \<noteq> tid) (treatments p)\<rparr>
                                        else p)
                                  (patients a1)\<rparr>
                    else a1))"

section \<open>components/Dashboard.tsx: the record workspace\<close>

record Dashboard =
  selectedPatientId :: "string option"
  isAddingTreatment :: bool
  searchQuery :: string
  searchCnic :: string
  searchError :: string
  diagnosis :: string
  medication :: string
  notes_field :: string
  selectedFiles :: "MedicalFile list"

text \<open>
  A selected file: its name and the data URL the reader produces for it, with the three
  values drawn from the clock and the random generator while it is converted.
\<close>

record LocalFile =
  local_name :: string
  local_dataUrl :: string
  drawn_now :: string
  drawn_random :: string
  drawn_iso :: string

definition fileType_of :: "(string \<Rightarrow> string) \<Rightarrow> string \<Rightarrow> string" where
  \<comment> \<open>\<open>file.name.split('.').pop()?.toUpperCase() || 'UNKNOWN'\<close>, with \<open>upper\<close> for
      the platform's \<open>toUpperCase\<close>\<close>
  "fileType_of upper file_name =
     or_else_opt (map_option upper (pop (split CHR ''.'' file_name))) ''UNKNOWN''"

definition medicalFile_of :: "(string \<Rightarrow> string) \<Rightarrow> LocalFile \<Rightarrow> MedicalFile" where
  "medicalFile_of upper f =
     \<lparr>file_id = ''file-'' @ drawn_now f @ ''-'' @ drawn_random f,
      fileName = local_name f,
      fileType = fileType_of upper (local_name f),
      fileUrl = local_dataUrl f,
      uploadedAt = drawn_iso f\<rparr>"

definition handleFileChange ::
  "(string \<Rightarrow> string) \<Rightarrow> LocalFile list option \<Rightarrow> Dashboard \<Rightarrow> Dashboard" where
  "handleFileChange upper selected d =
     (case selected of
        None \<Rightarrow> d
      | Some fs \<Rightarrow> d\<lparr>selectedFiles := selectedFiles d @ map (medicalFile_of upper) fs\<rparr>)"



section \<open>Example inputs\<close>

definition report_pdf :: LocalFile where
  "report_pdf =
     \<lparr>local_name = ''report.final.pdf'', local_dataUrl = ''data:application/pdf;base64,AAAA'',
      drawn_now = ''1700000000000'', drawn_random = ''k3j9x0a1b'',
      drawn_iso = ''2023-11-14T22:13:20.000Z''\<rparr>"

definition offline :: "string \<Rightarrow> Request \<Rightarrow> 'd fetch_result" where
  \<comment> \<open>no response: \<open>fetch\<close> rejects with the transport's error\<close>
  "offline m req = Rejected (Error m)"

definition respond :: "bool \<Rightarrow> 'd ApiResponse \<Rightarrow> Request \<Rightarrow> 'd fetch_result" where
  \<comment> \<open>a server answering with the given status flag and JSON envelope\<close>
  "respond status envelope req = Resolved \<lparr>ok = status, json = Inr envelope\<rparr>"

definition failure_envelope :: "string option \<Rightarrow> 'd ApiResponse" where
  "failure_envelope m = \<lparr>success = False, message = m, data = None, errors = None\<rparr>"

definition success_envelope :: "'d option \<Rightarrow> 'd ApiResponse" where
  "success_envelope d = \<lparr>success = True, message = None, data = d, errors = None\<rparr>"


definition visit_1 :: Treatment where
  "visit_1 =
     \<lparr>treatment_id = ''t-1'', patientId = ''p-1'', doctorId = ''doc-001'',
      doctorName = ''Dr. Sarah Mitchell'', timestamp = ''2024-01-05T09:00:00.000Z'',
      treatment_diagnosis = ''Flu'', treatment_medication = ''Rest'', treatment_notes = [],
      files = None\<rparr>"

definition visit_2 :: Treatment where
  "visit_2 = visit_1\<lparr>treatment_id := ''t-2'', treatment_diagnosis := ''Sprain''\<rparr>"

definition patient_1 :: PatientProfile where
  "patient_1 =
     \<lparr>user_id = ''p-1'', user_role = PATIENT, user_name = ''Ayesha Khan'',
      user_email = ''ayesha@example.com'', user_cnic = Some ''35-1234567'',
      user_isVerified = Some True, medicalHistory = [], treatments = [visit_1, visit_2]\<rparr>"

definition patient_2 :: PatientProfile where
  "patient_2 =
     \<lparr>user_id = ''p-2'', user_role = PATIENT, user_name = ''Bilal Ahmed'',
      user_email = ''bilal@example.com'', user_cnic = None,
      user_isVerified = Some True, medicalHistory = [],
      treatments = [visit_1\<lparr>patientId := ''p-2''\<rparr>]\<rparr>"

definition user_1 :: User where
  "user_1 =
     \<lparr>user_id = ''p-1'', user_role = PATIENT, user_name = ''Ayesha Khan'',
      user_email = ''ayesha@example.com'', user_cnic = Some ''35-1234567'',
      user_isVerified = Some True\<rparr>"

definition app_patient :: App where
  \<comment> \<open>a signed-in patient with a roster of two\<close>
  "app_patient =
     \<lparr>authToken = Some ''tok-1'', sent = [], alerts = [],
      currentUser = Some user_1, patients = [patient_1, patient_2], doctors = [MOCK_DOCTOR],
      app_isLoading = False\<rparr>"

definition app_doctor :: App where
  "app_doctor = app_patient\<lparr>currentUser := Some MOCK_DOCTOR\<rparr>"

definition acknowledge :: "Request \<Rightarrow> unit fetch_result" where
  "acknowledge = respond True (success_envelope None)"

definition reject_token :: "Request \<Rightarrow> ProfileResponse fetch_result" where
  "reject_token = respond False (failure_envelope (Some ''Invalid or expired token''))"

definition no_roster :: "Request \<Rightarrow> PatientsResponse fetch_result" where
  "no_roster = offline ''Failed to fetch''"


definition signup_form :: AuthScreen where
  \<comment> \<open>the sign-up form of a patient, filled in\<close>
  "signup_form =
     (handleRoleSelect PATIENT (AuthScreen_init None))
       \<lparr>authMode := signup, name := ''Ayesha Khan'', email := ''ayesha@example.com'',
        cnic := ''42101-1234567-1'', password := ''secret1''\<rparr>"

definition otp_entry :: AuthScreen where
  \<comment> \<open>the code entry after that sign-up, the countdown run out\<close>
  "otp_entry = signup_form\<lparr>view := otp_verification, otpEmail := ''ayesha@example.com''\<rparr>"

definition signup_accepted :: "Request \<Rightarrow> SignupResponse fetch_result" where
  "signup_accepted =
     respond True (success_envelope (Some
       \<lparr>signup_user = \<lparr>su_id = ''u-1'', su_email = ''ayesha@example.com'',
                        su_cnic = ''42101-1234567-1'', su_isVerified = False\<rparr>\<rparr>))"

definition no_login :: "Request \<Rightarrow> LoginResponse fetch_result" where
  "no_login = offline ''Failed to fetch''"

definition otp_accepted :: "Request \<Rightarrow> VerifyOtpResponse fetch_result" where
  "otp_accepted =
     respond True (success_envelope (Some
       \<lparr>verify_user = \<lparr>vu_id = ''u-1'', vu_email = ''ayesha@example.com'',
                        vu_cnic = ''42101-1234567-1'', vu_isVerified = True,
                        vu_role = ''patient''\<rparr>,
        verify_token = ''jwt-1''\<rparr>))"

definition otp_refused :: "Request \<Rightarrow> VerifyOtpResponse fetch_result" where
  "otp_refused = respond False (failure_envelope (Some ''Invalid OTP''))"

definition resend_accepted :: "Request \<Rightarrow> unit fetch_result" where
  "resend_accepted = respond True (success_envelope None)"

definition ascii_upper_char :: "char \<Rightarrow> char" where
  "ascii_upper_char c =
     (case map_of (zip ''abcdefghijklmnopqrstuvwxyz'' ''ABCDEFGHIJKLMNOPQRSTUVWXYZ'') c of
        Some u \<Rightarrow> u
      | None \<Rightarrow> c)"

definition ascii_upper :: "string \<Rightarrow> string" where
  \<comment> \<open>an upper-casing for the examples: it is \<open>toUpperCase\<close> on ASCII text, the only text
      it is applied to below\<close>
  "ascii_upper s = map ascii_upper_char s"

definition otp_success_no_data :: "Request \<Rightarrow> VerifyOtpResponse fetch_result" where
  \<comment> \<open>a server answering 200 with \<open>{success: true}\<close> and no data\<close>
  "otp_success_no_data = respond True (success_envelope None)"

section \<open>Properties of the string functions\<close>

lemma atom_ok_Digit: "atom_ok Digit = is_digit"
  by (rule ext) simp

lemma regex_test_rep:
  "regex_test ((a, n) # p) s =
     (\<exists>x r. s = x @ r \<and> length x = n \<and> list_all (atom_ok a) x \<and> regex_test p r)"
proof (induction n arbitrary: s)
  case 0
  then show ?case by simp
next
  case (Suc n)
  show ?case
  proof (cases s)
    case Nil
    then show ?thesis by simp
  next
    case (Cons c cs)
    show ?thesis
    proof
      assume "regex_test ((a, Suc n) # p) s"
      with Cons Suc obtain x r where "cs = x @ r" "length x = n" "list_all (atom_ok a) x"
         "regex_test p r" "atom_ok a c" by auto
      then have "s = (c # x) @ r \<and> length (c # x) = Suc n
                 \<and> list_all (atom_ok a) (c # x) \<and> regex_test p r"
        using Cons by simp
      then show "\<exists>x r. s = x @ r \<and> length x = Suc n \<and> list_all (atom_ok a) x \<and> regex_test p r"
        by blast
    next
      assume "\<exists>x r. s = x @ r \<and> length x = Suc n \<and> list_all (atom_ok a) x \<and> regex_test p r"
      then obtain x r where h: "s = x @ r" "length x = Suc n" "list_all (atom_ok a) x"
          "regex_test p r"
        by blast
      then obtain y ys where "x = y # ys" by (cases x) auto
      with h Cons Suc show "regex_test ((a, Suc n) # p) s" by auto
    qed
  qed
qed

lemma regex_test_append:
  "length x = n \<Longrightarrow>
     regex_test ((a, n) # p) (x @ r) = (list_all (atom_ok a) x \<and> regex_test p r)"
  by (induction x arbitrary: n) auto

lemma regex_test_one:
  "regex_test ((a, Suc 0) # p) s = (\<exists>c r. s = c # r \<and> atom_ok a c \<and> regex_test p r)"
  by (cases s) auto

lemma cnic_sound:
  assumes "regex_test cnic_regex s"
  shows "\<exists>a b c. length a = 5 \<and> length b = 7 \<and> length c = 1
        \<and> list_all is_digit a \<and> list_all is_digit b \<and> list_all is_digit c
        \<and> s = a @ ''-'' @ b @ ''-'' @ c"
proof -
  from assms obtain a r1 where 1: "s = a @ r1" "length a = 5" "list_all is_digit a"
      "regex_test [(Lit CHR ''-'', Suc 0), (Digit, 7), (Lit CHR ''-'', Suc 0), (Digit, Suc 0)] r1"
    unfolding cnic_regex_def One_nat_def
    by (subst (asm) regex_test_rep) (auto simp only: atom_ok_Digit)
  from 1(4) obtain r2 where 2: "r1 = CHR ''-'' # r2"
      "regex_test [(Digit, 7), (Lit CHR ''-'', Suc 0), (Digit, Suc 0)] r2"
    by (subst (asm) regex_test_one) auto
  from 2(2) obtain b r3 where 3: "r2 = b @ r3" "length b = 7" "list_all is_digit b"
      "regex_test [(Lit CHR ''-'', Suc 0), (Digit, Suc 0)] r3"
    by (subst (asm) regex_test_rep) (auto simp only: atom_ok_Digit)
  from 3(4) obtain r4 where 4: "r3 = CHR ''-'' # r4" "regex_test [(Digit, Suc 0)] r4"
    by (subst (asm) regex_test_one) auto
  from 4(2) obtain d where 5: "r4 = [d]" "is_digit d"
    by (subst (asm) regex_test_one) auto
  have "s = a @ ''-'' @ b @ ''-'' @ [d]" using 1 2 3 4 5 by simp
  moreover have "length [d] = 1" "list_all is_digit [d]" using 5 by simp_all
  ultimately show ?thesis using 1 3 by blast
qed

lemma cnic_complete:
  assumes "length a = 5" "length b = 7" "length c = 1"
     "list_all is_digit a" "list_all is_digit b" "list_all is_digit c"
  shows "regex_test cnic_regex (a @ ''-'' @ b @ ''-'' @ c)"
proof -
  from assms(3) obtain y where c: "c = [y]" by (cases c) auto
  show ?thesis
    unfolding cnic_regex_def using assms c
    by (simp add: regex_test_append atom_ok_Digit)
qed

lemma split_length: "length (split sep s) = Suc (length (filter (\<lambda>c. c = sep) s))"
  by (induction s) (auto split: list.splits)

lemma split_not_Nil: "split sep s \<noteq> []"
  using split_length [of sep s] by auto

lemma split_no_sep: "sep \<notin> set s \<Longrightarrow> split sep s = [s]"
  by (induction s) auto

lemma last_split_after: "last (split sep (pre @ sep # ext)) = last (split sep ext)"
proof (induction pre)
  case Nil
  then show ?case by (simp add: split_not_Nil)
next
  case (Cons c pre)
  show ?case
  proof (cases "c = sep")
    case True
    then show ?thesis using Cons by (simp add: split_not_Nil)
  next
    case False
    have "length (split sep (pre @ sep # ext)) \<ge> 2"
      by (simp add: split_length)
    then obtain w v ws where "split sep (pre @ sep # ext) = w # v # ws"
      by (cases "split sep (pre @ sep # ext)"; cases "tl (split sep (pre @ sep # ext))") auto
    then show ?thesis using False Cons by simp
  qed
qed

lemma ascii_upper_Nil_iff: "(ascii_upper s = []) = (s = [])"
  by (simp add: ascii_upper_def)

lemma fileType_of_last:
  "fileType_of upper n =
     (if upper (last (split CHR ''.'' n)) = [] then ''UNKNOWN''
      else upper (last (split CHR ''.'' n)))"
  by (simp add: fileType_of_def pop_def split_not_Nil or_else_opt_def truthy_opt_def truthy_def)

section \<open>The sign-up form's national-id check\<close>

text \<open>
  C4. The check \<open>/^\d{5}-\d{7}-\d{1}$/.test(cnic)\<close> of the sign-up form accepts a string
  exactly when it is five digits, a hyphen, seven digits, a hyphen and one digit. It accepts
  "42101-1234567-1" and rejects "421011234567", "42101-123456-1" and the empty string.
\<close>

theorem cnic_validator_exact:
  "(regex_test cnic_regex s \<longleftrightarrow>
      (\<exists>a b c. length a = 5 \<and> length b = 7 \<and> length c = 1
         \<and> list_all is_digit a \<and> list_all is_digit b \<and> list_all is_digit c
         \<and> s = a @ ''-'' @ b @ ''-'' @ c))
   \<and> regex_test cnic_regex ''42101-1234567-1''
   \<and> \<not> regex_test cnic_regex ''421011234567''
   \<and> \<not> regex_test cnic_regex ''42101-123456-1''
   \<and> \<not> regex_test cnic_regex []"
proof -
  have "regex_test cnic_regex s \<longleftrightarrow>
      (\<exists>a b c. length a = 5 \<and> length b = 7 \<and> length c = 1
         \<and> list_all is_digit a \<and> list_all is_digit b \<and> list_all is_digit c
         \<and> s = a @ ''-'' @ b @ ''-'' @ c)"
    using cnic_sound [of s] cnic_complete by blast
  moreover have "regex_test cnic_regex ''42101-1234567-1''" by code_simp
  moreover have "\<not> regex_test cnic_regex ''421011234567''" by code_simp
  moreover have "\<not> regex_test cnic_regex ''42101-123456-1''" by code_simp
  moreover have "\<not> regex_test cnic_regex []" by code_simp
  ultimately show ?thesis by blast
qed

section \<open>The file-type label of an attachment\<close>

text \<open>
  C10. Let \<open>upper\<close> be the platform's upper-casing, which gives the empty text only for
  the empty text. The label that \<open>handleFileChange\<close> derives for a file is the upper-cased
  text after the last dot of its name, when that text is not empty; a non-empty name with no
  dot gives the whole name upper-cased. When that trailing text is empty, as for a name
  ending in a dot and for the empty name, the label is the fallback UNKNOWN. Every file
  appended to the selection carries the label of its own name.
\<close>

theorem fileType_label:
  assumes "\<And>s. (upper s = []) = (s = [])"
  shows
  "(CHR ''.'' \<notin> set n \<and> n \<noteq> [] \<longrightarrow> fileType_of upper n = upper n)
   \<and> (CHR ''.'' \<notin> set ext \<and> ext \<noteq> [] \<longrightarrow> fileType_of upper (pre @ ''.'' @ ext) = upper ext)
   \<and> fileType_of upper (pre @ ''.'') = ''UNKNOWN''
   \<and> fileType_of upper [] = ''UNKNOWN''
   \<and> fileType (medicalFile_of upper f) = fileType_of upper (local_name f)
   \<and> map fileType (selectedFiles (handleFileChange upper (Some fs) d))
       = map fileType (selectedFiles d) @ map (\<lambda>f. fileType_of upper (local_name f)) fs"
proof -
  have a: "CHR ''.'' \<notin> set n \<and> n \<noteq> [] \<longrightarrow> fileType_of upper n = upper n"
    by (simp add: fileType_of_last split_no_sep assms)
  have b: "CHR ''.'' \<notin> set ext \<and> ext \<noteq> [] \<longrightarrow>
             fileType_of upper (pre @ ''.'' @ ext) = upper ext"
    by (simp add: fileType_of_last last_split_after split_no_sep assms)
  have c: "fileType_of upper (pre @ ''.'') = ''UNKNOWN''"
    by (simp add: fileType_of_last last_split_after assms)
  have d: "fileType_of upper [] = ''UNKNOWN''"
    by (simp add: fileType_of_last assms)
  have e: "fileType (medicalFile_of upper f) = fileType_of upper (local_name f)"
    by (simp add: medicalFile_of_def)
  have g: "map fileType (selectedFiles (handleFileChange upper (Some fs) d))
       = map fileType (selectedFiles d) @ map (\<lambda>f. fileType_of upper (local_name f)) fs"
    by (simp add: handleFileChange_def medicalFile_of_def comp_def)
  show ?thesis using a b c d e g by blast
qed

theorem fileType_label_witness:
  "fileType_of ascii_upper ''README'' = ''README''
   \<and> fileType_of ascii_upper ''report.final.pdf'' = ''PDF''
   \<and> fileType_of ascii_upper ''notes.'' = ''UNKNOWN''
   \<and> fileType (medicalFile_of ascii_upper report_pdf) = ''PDF''"
  using fileType_label [of ascii_upper "''README''" "''pdf''" "''report.final''" report_pdf,
          OF ascii_upper_Nil_iff]
        fileType_label [of ascii_upper _ _ "''notes''", OF ascii_upper_Nil_iff]
  by (simp add: ascii_upper_def ascii_upper_char_def report_pdf_def)

text \<open>
  The text UNKNOWN is not the mark of an empty trailing text alone: it is also the
  upper-casing of an extension, or of a name with no dot, that spells "unknown".
\<close>

theorem fileType_unknown_counterexample:
  "last (split CHR ''.'' ''a.unknown'') = ''unknown''
   \<and> fileType_of ascii_upper ''a.unknown'' = ''UNKNOWN''
   \<and> split CHR ''.'' ''unknown'' = [''unknown'']
   \<and> fileType_of ascii_upper ''unknown'' = ''UNKNOWN''"
  by (simp add: fileType_of_def pop_def or_else_opt_def truthy_opt_def truthy_def
        ascii_upper_def ascii_upper_char_def)

section \<open>The API gateway\<close>

lemma handleApiResponse_not_ok:
  "\<not> ok r \<Longrightarrow> json r = Inr d \<Longrightarrow>
     handleApiResponse r = Inl (Error (or_else_opt (message d) generic_error))"
  by (simp add: handleApiResponse_def)

lemma apiRequest_fst:
  "fst (apiRequest fetch base token endpoint options) = request_of base token endpoint options"
  by (simp add: apiRequest_def Let_def)

lemma apiRequest_snd:
  "snd (apiRequest fetch base token endpoint options) =
     (case fetch (request_of base token endpoint options) of
        Rejected e \<Rightarrow> Inl e
      | Resolved response \<Rightarrow> handleApiResponse response)"
  by (simp add: apiRequest_def Let_def)

text \<open>
  C7. Every operation of the gateway is \<open>apiRequest\<close> at its own endpoint. When the
  response has a non-success status and its body parses as the JSON envelope, the call fails
  with an error whose message is the one the server supplied, or "An error occurred" when
  the envelope carries no message or an empty one. When \<open>fetch\<close> rejects (no response),
  the call fails with the transport's own error, rethrown unchanged: the gateway puts no
  message of its own in its place.
\<close>

theorem apiRequest_failures:
  "(fetch (request_of base token endpoint options) = Resolved r \<and> \<not> ok r \<and> json r = Inr d
      \<longrightarrow> snd (apiRequest fetch base token endpoint options)
            = Inl (Error (case message d of
                            None \<Rightarrow> ''An error occurred''
                          | Some m \<Rightarrow> if m = [] then ''An error occurred'' else m)))
   \<and> (fetch (request_of base token endpoint options) = Rejected e
      \<longrightarrow> snd (apiRequest fetch base token endpoint options) = Inl e)
   \<and> authApi_signup f1 base token d1 = apiRequest f1 base token ''/auth/signup'' (post (SignupBody d1))
   \<and> authApi_verifyOtp f2 base token d2
       = apiRequest f2 base token ''/auth/verify-otp'' (post (VerifyOtpBody d2))
   \<and> authApi_resendOtp f3 base token d3
       = apiRequest f3 base token ''/auth/resend-otp'' (post (ResendOtpBody d3))
   \<and> authApi_login f4 base token d4 = apiRequest f4 base token ''/auth/login'' (post (LoginBody d4))
   \<and> authApi_getProfile f5 base token = apiRequest f5 base token ''/auth/profile'' no_options
   \<and> authApi_getPatients f6 base token = apiRequest f6 base token ''/auth/patients'' no_options
   \<and> authApi_addTreatment f7 base token d7
       = apiRequest f7 base token ''/auth/treatments'' (post (TreatmentBody d7))
   \<and> authApi_deleteTreatment f8 base token d8
       = apiRequest f8 base token (''/auth/treatments/'' @ d8)
           \<lparr>init_method = Some ''DELETE'', init_headers = None, init_body = None\<rparr>"
proof -
  have 1: "fetch (request_of base token endpoint options) = Resolved r \<and> \<not> ok r \<and> json r = Inr d
      \<longrightarrow> snd (apiRequest fetch base token endpoint options)
            = Inl (Error (case message d of
                            None \<Rightarrow> ''An error occurred''
                          | Some m \<Rightarrow> if m = [] then ''An error occurred'' else m))"
    by (auto simp: apiRequest_snd handleApiResponse_not_ok or_else_opt_def truthy_opt_def
          truthy_def generic_error_def split: option.splits)
  have 2: "fetch (request_of base token endpoint options) = Rejected e
      \<longrightarrow> snd (apiRequest fetch base token endpoint options) = Inl e"
    by (simp add: apiRequest_snd)
  show ?thesis
    using 1 2
    by (simp only: authApi_signup_def authApi_verifyOtp_def authApi_resendOtp_def
          authApi_login_def authApi_getProfile_def authApi_getPatients_def
          authApi_addTreatment_def authApi_deleteTreatment_def simp_thms)
qed

theorem apiRequest_failures_witness:
  "snd (authApi_getProfile (respond False (failure_envelope (Some ''Invalid token'')))
          default_api_url (Some ''abc'')) = Inl (Error ''Invalid token'')
   \<and> snd (authApi_getProfile (respond False (failure_envelope None))
          default_api_url (Some ''abc'')) = Inl (Error ''An error occurred'')
   \<and> snd (authApi_getProfile (offline ''Failed to fetch'') default_api_url None)
       = Inl (Error ''Failed to fetch'')"
  using
    apiRequest_failures [of "respond False (failure_envelope (Some ''Invalid token''))
        :: Request \<Rightarrow> ProfileResponse fetch_result"
      default_api_url "Some ''abc''" "''/auth/profile''" no_options
      "\<lparr>ok = False, json = Inr (failure_envelope (Some ''Invalid token''))\<rparr>"
      "failure_envelope (Some ''Invalid token'')"]
    apiRequest_failures [of "respond False (failure_envelope None)
        :: Request \<Rightarrow> ProfileResponse fetch_result"
      default_api_url "Some ''abc''" "''/auth/profile''" no_options
      "\<lparr>ok = False, json = Inr (failure_envelope None)\<rparr>"
      "failure_envelope None"]
    apiRequest_failures [of "offline ''Failed to fetch''
        :: Request \<Rightarrow> ProfileResponse fetch_result"
      default_api_url None "''/auth/profile''" no_options _ _ "Error ''Failed to fetch''"]
  by (simp add: respond_def offline_def failure_envelope_def authApi_getProfile_def)

text \<open>
  The message of a network failure is the transport's, not the gateway's generic one: with
  the browser reporting "Failed to fetch", that text is what the failed call carries.
\<close>

theorem network_failure_counterexample:
  "snd (authApi_getProfile (offline ''Failed to fetch'') default_api_url None)
     = Inl (Error ''Failed to fetch'')
   \<and> error_message (Error ''Failed to fetch'') \<noteq> generic_error"
  by (simp add: authApi_getProfile_def apiRequest_snd offline_def generic_error_def)

section \<open>Patient search\<close>







section \<open>Deleting a treatment\<close>

lemma deleteTreatment_not_patient:
  "currentUser a = None \<or> (\<exists>u. currentUser a = Some u \<and> user_role u \<noteq> PATIENT) \<Longrightarrow>
     deleteTreatment fetch base pid tid a = a"
  by (auto simp: deleteTreatment_def)

lemma deleteTreatment_acknowledged:
  assumes "currentUser a = Some u" "user_role u = PATIENT"
    and "snd (authApi_deleteTreatment fetch base (authToken a) tid) = Inr r" "success r"
  shows "deleteTreatment fetch base pid tid a =
     a\<lparr>sent := sent a @ [fst (authApi_deleteTreatment fetch base (authToken a) tid)],
       patients := map (\<lambda>p. if user_id p = pid
                              then p\<lparr>treatments :=
                                       filter (\<lambda>t. treatment_id t \<noteq> tid) (treatments p)\<rparr>
                              else p) (patients a)\<rparr>"
  using assms
  by (cases "authApi_deleteTreatment fetch base (authToken a) tid")
     (simp add: deleteTreatment_def fetched_def)

lemma ack_ex:
  "snd (authApi_deleteTreatment acknowledge default_api_url (Some ''tok-1'') ''t-1'')
     = Inr (success_envelope None)"
  by (simp add: authApi_deleteTreatment_def apiRequest_snd acknowledge_def respond_def
        handleApiResponse_def)

text \<open>
  C8. \<open>deleteTreatment\<close> changes nothing, and sends nothing, unless the current user has
  the patient role. When it does and the server acknowledges the deletion, the roster keeps
  its length and order; every patient whose id differs from the given patient id is unchanged;
  a patient with that id keeps every field but the treatment list, from which exactly the
  treatments with the given treatment id are removed.
\<close>

theorem deleteTreatment_frame:
  "((currentUser a = None \<or> (\<exists>u. currentUser a = Some u \<and> user_role u \<noteq> PATIENT)) \<longrightarrow>
      deleteTreatment fetch base pid tid a = a)
   \<and> (currentUser a = Some u \<and> user_role u = PATIENT
       \<and> snd (authApi_deleteTreatment fetch base (authToken a) tid) = Inr r \<and> success r \<longrightarrow>
        length (patients (deleteTreatment fetch base pid tid a)) = length (patients a)
        \<and> (\<forall>i < length (patients a).
              (user_id (patients a ! i) \<noteq> pid \<longrightarrow>
                 patients (deleteTreatment fetch base pid tid a) ! i = patients a ! i)
              \<and> (user_id (patients a ! i) = pid \<longrightarrow>
                 patients (deleteTreatment fetch base pid tid a) ! i =
                   (patients a ! i)\<lparr>treatments :=
                      filter (\<lambda>t. treatment_id t \<noteq> tid) (treatments (patients a ! i))\<rparr>))
        \<and> currentUser (deleteTreatment fetch base pid tid a) = currentUser a
        \<and> alerts (deleteTreatment fetch base pid tid a) = alerts a)"
proof -
  have 1: "(currentUser a = None \<or> (\<exists>u. currentUser a = Some u \<and> user_role u \<noteq> PATIENT)) \<longrightarrow>
      deleteTreatment fetch base pid tid a = a"
    using deleteTreatment_not_patient by blast
  have 2: "currentUser a = Some u \<and> user_role u = PATIENT
       \<and> snd (authApi_deleteTreatment fetch base (authToken a) tid) = Inr r \<and> success r \<longrightarrow>
        length (patients (deleteTreatment fetch base pid tid a)) = length (patients a)
        \<and> (\<forall>i < length (patients a).
              (user_id (patients a ! i) \<noteq> pid \<longrightarrow>
                 patients (deleteTreatment fetch base pid tid a) ! i = patients a ! i)
              \<and> (user_id (patients a ! i) = pid \<longrightarrow>
                 patients (deleteTreatment fetch base pid tid a) ! i =
                   (patients a ! i)\<lparr>treatments :=
                      filter (\<lambda>t. treatment_id t \<noteq> tid) (treatments (patients a ! i))\<rparr>))
        \<and> currentUser (deleteTreatment fetch base pid tid a) = currentUser a
        \<and> alerts (deleteTreatment fetch base pid tid a) = alerts a"
  proof
    assume h: "currentUser a = Some u \<and> user_role u = PATIENT
       \<and> snd (authApi_deleteTreatment fetch base (authToken a) tid) = Inr r \<and> success r"
    then have eq: "deleteTreatment fetch base pid tid a =
       a\<lparr>sent := sent a @ [fst (authApi_deleteTreatment fetch base (authToken a) tid)],
         patients := map (\<lambda>p. if user_id p = pid
                              then p\<lparr>treatments :=
                                       filter (\<lambda>t. treatment_id t \<noteq> tid) (treatments p)\<rparr>
                              else p) (patients a)\<rparr>"
      using deleteTreatment_acknowledged by blast
    show "length (patients (deleteTreatment fetch base pid tid a)) = length (patients a)
        \<and> (\<forall>i < length (patients a).
              (user_id (patients a ! i) \<noteq> pid \<longrightarrow>
                 patients (deleteTreatment fetch base pid tid a) ! i = patients a ! i)
              \<and> (user_id (patients a ! i) = pid \<longrightarrow>
                 patients (deleteTreatment fetch base pid tid a) ! i =
                   (patients a ! i)\<lparr>treatments :=
                      filter (\<lambda>t. treatment_id t \<noteq> tid) (treatments (patients a ! i))\<rparr>))
        \<and> currentUser (deleteTreatment fetch base pid tid a) = currentUser a
        \<and> alerts (deleteTreatment fetch base pid tid a) = alerts a"
      by (simp add: eq)
  qed
  show ?thesis using 1 2 by blast
qed

theorem deleteTreatment_frame_witness:
  "deleteTreatment acknowledge default_api_url ''p-1'' ''t-1'' app_doctor = app_doctor
   \<and> patients (deleteTreatment acknowledge default_api_url ''p-1'' ''t-1'' app_patient)
       = [patient_1\<lparr>treatments := [visit_2]\<rparr>, patient_2]"
proof -
  have d: "deleteTreatment acknowledge default_api_url ''p-1'' ''t-1'' app_doctor = app_doctor"
    using deleteTreatment_frame [of app_doctor acknowledge default_api_url "''p-1''" "''t-1''"]
    by (simp add: app_doctor_def app_patient_def MOCK_DOCTOR_def)
  have p: "length (patients (deleteTreatment acknowledge default_api_url ''p-1'' ''t-1'' app_patient))
             = 2
      \<and> patients (deleteTreatment acknowledge default_api_url ''p-1'' ''t-1'' app_patient) ! 0
          = patient_1\<lparr>treatments := [visit_2]\<rparr>
      \<and> patients (deleteTreatment acknowledge default_api_url ''p-1'' ''t-1'' app_patient) ! 1
          = patient_2"
    using deleteTreatment_frame [of app_patient acknowledge default_api_url "''p-1''" "''t-1''"
            user_1 "success_envelope None"] ack_ex
    by (simp add: app_patient_def user_1_def success_envelope_def patient_1_def patient_2_def
          visit_1_def visit_2_def All_less_Suc)
  show ?thesis using d p
    by (auto simp: list_eq_iff_nth_eq less_Suc_eq numeral_2_eq_2)
qed

section \<open>Session bootstrap\<close>

lemma initializeAuth_profile_fails:
  assumes "truthy_opt (authToken a)"
    and "snd (authApi_getProfile fetch_profile base (authToken a)) = Inl e"
  shows "initializeAuth fetch_profile fetch_patients base a =
     a\<lparr>sent := sent a @ [fst (authApi_getProfile fetch_profile base (authToken a))],
       authToken := None, app_isLoading := False\<rparr>"
  using assms
  by (cases "authApi_getProfile fetch_profile base (authToken a)")
     (simp add: initializeAuth_def getToken_def fetched_def removeToken_def)

lemma reject_ex:
  "snd (authApi_getProfile reject_token default_api_url (Some ''stale''))
     = Inl (Error ''Invalid or expired token'')"
  by (simp add: authApi_getProfile_def apiRequest_snd reject_token_def respond_def
        handleApiResponse_def failure_envelope_def or_else_opt_def truthy_opt_def truthy_def)

text \<open>
  C6. When the bootstrap finds a persisted token and the \<open>getProfile\<close> call fails, the
  token is removed from storage, nothing is shown through \<open>alert\<close>, the current user and
  the roster are left as they were, and loading ends. Started from the initial state, the
  application then renders the sign-in screen, with no message.
\<close>

theorem bootstrap_invalid_token:
  "(truthy_opt (authToken a)
      \<and> snd (authApi_getProfile fetch_profile base (authToken a)) = Inl e \<longrightarrow>
        authToken (initializeAuth fetch_profile fetch_patients base a) = None
        \<and> alerts (initializeAuth fetch_profile fetch_patients base a) = alerts a
        \<and> currentUser (initializeAuth fetch_profile fetch_patients base a) = currentUser a
        \<and> patients (initializeAuth fetch_profile fetch_patients base a) = patients a
        \<and> app_isLoading (initializeAuth fetch_profile fetch_patients base a) = False
        \<and> sent (initializeAuth fetch_profile fetch_patients base a)
            = sent a @ [fst (authApi_getProfile fetch_profile base (authToken a))])
   \<and> (truthy_opt token
      \<and> snd (authApi_getProfile fetch_profile base token) = Inl e \<longrightarrow>
        screen (initializeAuth fetch_profile fetch_patients base (App_init token))
          = AuthScreenScreen
        \<and> alerts (initializeAuth fetch_profile fetch_patients base (App_init token)) = []
        \<and> authToken (initializeAuth fetch_profile fetch_patients base (App_init token)) = None)"
proof -
  have 1: "truthy_opt (authToken a)
      \<and> snd (authApi_getProfile fetch_profile base (authToken a)) = Inl e \<longrightarrow>
        authToken (initializeAuth fetch_profile fetch_patients base a) = None
        \<and> alerts (initializeAuth fetch_profile fetch_patients base a) = alerts a
        \<and> currentUser (initializeAuth fetch_profile fetch_patients base a) = currentUser a
        \<and> patients (initializeAuth fetch_profile fetch_patients base a) = patients a
        \<and> app_isLoading (initializeAuth fetch_profile fetch_patients base a) = False
        \<and> sent (initializeAuth fetch_profile fetch_patients base a)
            = sent a @ [fst (authApi_getProfile fetch_profile base (authToken a))]"
    by (simp add: initializeAuth_profile_fails)
  have 2: "truthy_opt token
      \<and> snd (authApi_getProfile fetch_profile base token) = Inl e \<longrightarrow>
        screen (initializeAuth fetch_profile fetch_patients base (App_init token))
          = AuthScreenScreen
        \<and> alerts (initializeAuth fetch_profile fetch_patients base (App_init token)) = []
        \<and> authToken (initializeAuth fetch_profile fetch_patients base (App_init token)) = None"
  proof
    assume h: "truthy_opt token \<and> snd (authApi_getProfile fetch_profile base token) = Inl e"
    have t: "authToken (App_init token) = token" by (simp add: App_init_def)
    from h t have "initializeAuth fetch_profile fetch_patients base (App_init token) =
       (App_init token)\<lparr>sent := sent (App_init token)
            @ [fst (authApi_getProfile fetch_profile base (authToken (App_init token)))],
         authToken := None, app_isLoading := False\<rparr>"
      using initializeAuth_profile_fails [of "App_init token" fetch_profile base e fetch_patients]
      by simp
    then show "screen (initializeAuth fetch_profile fetch_patients base (App_init token))
          = AuthScreenScreen
        \<and> alerts (initializeAuth fetch_profile fetch_patients base (App_init token)) = []
        \<and> authToken (initializeAuth fetch_profile fetch_patients base (App_init token)) = None"
      by (simp add: screen_def App_init_def)
  qed
  show ?thesis using 1 2 by blast
qed

theorem bootstrap_invalid_token_witness:
  "screen (initializeAuth reject_token no_roster default_api_url (App_init (Some ''stale'')))
     = AuthScreenScreen
   \<and> alerts (initializeAuth reject_token no_roster default_api_url (App_init (Some ''stale''))) = []
   \<and> authToken (initializeAuth reject_token no_roster default_api_url (App_init (Some ''stale'')))
       = None
   \<and> currentUser (initializeAuth reject_token no_roster default_api_url (App_init (Some ''stale'')))
       = None"
  using bootstrap_invalid_token [of "App_init (Some ''stale'')" reject_token default_api_url
          "Error ''Invalid or expired token''" no_roster "Some ''stale''"] reject_ex
  by (simp add: App_init_def truthy_opt_def truthy_def)

section \<open>Sign-up\<close>

lemma cnic_example: "regex_test cnic_regex ''42101-1234567-1''"
  by code_simp

lemma handleAction_signup_blocked:
  assumes "selectedRole s \<noteq> None" "authMode s = signup"
    and "name s = [] \<or> email s = [] \<or> cnic s = [] \<or> password s = []
         \<or> \<not> regex_test cnic_regex (cnic s) \<or> length (password s) < 6"
  shows "handleAction fetch_login fetch_signup base s =
     s\<lparr>error := (if name s = [] \<or> email s = [] \<or> cnic s = [] \<or> password s = []
                   then ''All fields are required.''
                   else if \<not> regex_test cnic_regex (cnic s)
                   then ''CNIC must be in format XXXXX-XXXXXXX-X''
                   else ''Password must be at least 6 characters long.''),
       successMsg := [], isLoading := False\<rparr>"
  using assms by (auto simp: handleAction_def truthy_def)

lemma handleAction_signup_success:
  assumes "selectedRole s = Some r" "authMode s = signup"
    and "name s \<noteq> []" "email s \<noteq> []" "cnic s \<noteq> []" "password s \<noteq> []"
    and "regex_test cnic_regex (cnic s)" "6 \<le> length (password s)"
    and "snd (authApi_signup fetch_signup base (authToken s)
                \<lparr>signup_cnic = cnic s, signup_name = Some (name s),
                 signup_email = email s, signup_password = password s,
                 signup_role = Some (UserRole_value r)\<rparr>) = Inr response"
    and "success response"
  shows "handleAction fetch_login fetch_signup base s =
     s\<lparr>sent := sent s @ [fst (authApi_signup fetch_signup base (authToken s)
                \<lparr>signup_cnic = cnic s, signup_name = Some (name s),
                 signup_email = email s, signup_password = password s,
                 signup_role = Some (UserRole_value r)\<rparr>)],
       error := [], successMsg := [], otpEmail := email s, view := otp_verification,
       resendCooldown := 300, isLoading := False\<rparr>"
  using assms
  by (cases "authApi_signup fetch_signup base (authToken s)
                   \<lparr>signup_cnic = cnic s, signup_name = Some (name s),
                    signup_email = email s, signup_password = password s,
                    signup_role = Some (UserRole_value r)\<rparr>")
     (simp add: handleAction_def truthy_def fetched_def Let_def)

text \<open>
  C3. A sign-up submitted from the displayed form with an empty name, email, national id or
  password, or a national id that fails the format check, or a password shorter than six
  characters, sends no request: the error of the first failing check is shown, and the
  controller stays on the form.
\<close>

theorem signup_validation_blocks:
  "shows_form s \<and> authMode s = signup
     \<and> (name s = [] \<or> email s = [] \<or> cnic s = [] \<or> password s = []
         \<or> \<not> regex_test cnic_regex (cnic s) \<or> length (password s) < 6) \<longrightarrow>
     sent (handleAction fetch_login fetch_signup base s) = sent s
     \<and> error (handleAction fetch_login fetch_signup base s) =
         (if name s = [] \<or> email s = [] \<or> cnic s = [] \<or> password s = []
          then ''All fields are required.''
          else if \<not> regex_test cnic_regex (cnic s)
          then ''CNIC must be in format XXXXX-XXXXXXX-X''
          else ''Password must be at least 6 characters long.'')
     \<and> view (handleAction fetch_login fetch_signup base s) = form
     \<and> otpEmail (handleAction fetch_login fetch_signup base s) = otpEmail s
     \<and> resendCooldown (handleAction fetch_login fetch_signup base s) = resendCooldown s
     \<and> isLoading (handleAction fetch_login fetch_signup base s) = False"
proof
  assume h: "shows_form s \<and> authMode s = signup
     \<and> (name s = [] \<or> email s = [] \<or> cnic s = [] \<or> password s = []
         \<or> \<not> regex_test cnic_regex (cnic s) \<or> length (password s) < 6)"
  then have r: "selectedRole s \<noteq> None" and v: "view s = form"
    by (simp_all add: shows_form_def)
  from h have m: "authMode s = signup" by simp
  from h have b: "name s = [] \<or> email s = [] \<or> cnic s = [] \<or> password s = []
         \<or> \<not> regex_test cnic_regex (cnic s) \<or> length (password s) < 6" by simp
  show "sent (handleAction fetch_login fetch_signup base s) = sent s
     \<and> error (handleAction fetch_login fetch_signup base s) =
         (if name s = [] \<or> email s = [] \<or> cnic s = [] \<or> password s = []
          then ''All fields are required.''
          else if \<not> regex_test cnic_regex (cnic s)
          then ''CNIC must be in format XXXXX-XXXXXXX-X''
          else ''Password must be at least 6 characters long.'')
     \<and> view (handleAction fetch_login fetch_signup base s) = form
     \<and> otpEmail (handleAction fetch_login fetch_signup base s) = otpEmail s
     \<and> resendCooldown (handleAction fetch_login fetch_signup base s) = resendCooldown s
     \<and> isLoading (handleAction fetch_login fetch_signup base s) = False"
    by (simp add: handleAction_signup_blocked [OF r m b] v)
qed

theorem signup_validation_blocks_witness:
  "sent (handleAction no_login signup_accepted default_api_url (signup_form\<lparr>password := ''12345''\<rparr>))
     = []
   \<and> error (handleAction no_login signup_accepted default_api_url
              (signup_form\<lparr>password := ''12345''\<rparr>))
     = ''Password must be at least 6 characters long.''
   \<and> error (handleAction no_login signup_accepted default_api_url
              (signup_form\<lparr>cnic := ''421011234567''\<rparr>))
     = ''CNIC must be in format XXXXX-XXXXXXX-X''
   \<and> error (handleAction no_login signup_accepted default_api_url (signup_form\<lparr>name := []\<rparr>))
     = ''All fields are required.''"
proof -
  have c: "\<not> regex_test cnic_regex ''421011234567''" by code_simp
  show ?thesis
    using
      signup_validation_blocks [of "signup_form\<lparr>password := ''12345''\<rparr>"
        no_login signup_accepted default_api_url]
      signup_validation_blocks [of "signup_form\<lparr>cnic := ''421011234567''\<rparr>"
        no_login signup_accepted default_api_url]
      signup_validation_blocks [of "signup_form\<lparr>name := []\<rparr>"
        no_login signup_accepted default_api_url]
      cnic_example c
    by (simp add: signup_form_def handleRoleSelect_def AuthScreen_init_def shows_form_def)
qed

lemma signup_accepted_ex:
  "snd (authApi_signup signup_accepted default_api_url None
          \<lparr>signup_cnic = ''42101-1234567-1'', signup_name = Some ''Ayesha Khan'',
           signup_email = ''ayesha@example.com'', signup_password = ''secret1'',
           signup_role = Some ''PATIENT''\<rparr>)
     = Inr (success_envelope (Some
         \<lparr>signup_user = \<lparr>su_id = ''u-1'', su_email = ''ayesha@example.com'',
                          su_cnic = ''42101-1234567-1'', su_isVerified = False\<rparr>\<rparr>))"
  by (simp add: authApi_signup_def apiRequest_snd signup_accepted_def respond_def
        handleApiResponse_def)

text \<open>
  C2. After a sign-up submission that passes the local checks and whose \<open>signup\<close> call
  succeeds, the controller shows the code entry, the retained email is the submitted one, and
  the countdown is 300.
\<close>

theorem signup_success_enters_otp:
  "selectedRole s = Some r \<and> authMode s = signup
     \<and> name s \<noteq> [] \<and> email s \<noteq> [] \<and> cnic s \<noteq> [] \<and> password s \<noteq> []
     \<and> regex_test cnic_regex (cnic s) \<and> 6 \<le> length (password s)
     \<and> snd (authApi_signup fetch_signup base (authToken s)
                \<lparr>signup_cnic = cnic s, signup_name = Some (name s),
                 signup_email = email s, signup_password = password s,
                 signup_role = Some (UserRole_value r)\<rparr>) = Inr response
     \<and> success response \<longrightarrow>
     view (handleAction fetch_login fetch_signup base s) = otp_verification
     \<and> otpEmail (handleAction fetch_login fetch_signup base s) = email s
     \<and> resendCooldown (handleAction fetch_login fetch_signup base s) = 300
     \<and> shows_otp (handleAction fetch_login fetch_signup base s)
     \<and> error (handleAction fetch_login fetch_signup base s) = []"
proof
  assume h: "selectedRole s = Some r \<and> authMode s = signup
     \<and> name s \<noteq> [] \<and> email s \<noteq> [] \<and> cnic s \<noteq> [] \<and> password s \<noteq> []
     \<and> regex_test cnic_regex (cnic s) \<and> 6 \<le> length (password s)
     \<and> snd (authApi_signup fetch_signup base (authToken s)
                \<lparr>signup_cnic = cnic s, signup_name = Some (name s),
                 signup_email = email s, signup_password = password s,
                 signup_role = Some (UserRole_value r)\<rparr>) = Inr response
     \<and> success response"
  have "handleAction fetch_login fetch_signup base s =
     s\<lparr>sent := sent s @ [fst (authApi_signup fetch_signup base (authToken s)
                \<lparr>signup_cnic = cnic s, signup_name = Some (name s),
                 signup_email = email s, signup_password = password s,
                 signup_role = Some (UserRole_value r)\<rparr>)],
       error := [], successMsg := [], otpEmail := email s, view := otp_verification,
       resendCooldown := 300, isLoading := False\<rparr>"
  proof (rule handleAction_signup_success)
    show "selectedRole s = Some r" "authMode s = signup" "name s \<noteq> []" "email s \<noteq> []"
      "cnic s \<noteq> []" "password s \<noteq> []" "regex_test cnic_regex (cnic s)"
      "6 \<le> length (password s)" "success response"
      using h by simp_all
    show "snd (authApi_signup fetch_signup base (authToken s)
                \<lparr>signup_cnic = cnic s, signup_name = Some (name s),
                 signup_email = email s, signup_password = password s,
                 signup_role = Some (UserRole_value r)\<rparr>) = Inr response"
      using h by simp
  qed
  then show "view (handleAction fetch_login fetch_signup base s) = otp_verification
     \<and> otpEmail (handleAction fetch_login fetch_signup base s) = email s
     \<and> resendCooldown (handleAction fetch_login fetch_signup base s) = 300
     \<and> shows_otp (handleAction fetch_login fetch_signup base s)
     \<and> error (handleAction fetch_login fetch_signup base s) = []"
    using h by (simp add: shows_otp_def truthy_def)
qed

theorem signup_success_enters_otp_witness:
  "view (handleAction no_login signup_accepted default_api_url signup_form) = otp_verification
   \<and> otpEmail (handleAction no_login signup_accepted default_api_url signup_form)
       = ''ayesha@example.com''
   \<and> resendCooldown (handleAction no_login signup_accepted default_api_url signup_form) = 300"
  using signup_success_enters_otp [of signup_form PATIENT signup_accepted default_api_url
          "success_envelope (Some
             \<lparr>signup_user = \<lparr>su_id = ''u-1'', su_email = ''ayesha@example.com'',
                              su_cnic = ''42101-1234567-1'', su_isVerified = False\<rparr>\<rparr>)"
          no_login]
        signup_accepted_ex cnic_example
  by (simp add: signup_form_def handleRoleSelect_def AuthScreen_init_def success_envelope_def)

section \<open>Code entry\<close>

lemma handleVerifyOTP_guard:
  "otpEmail s = [] \<or> length (otpInput s) \<noteq> 6 \<or> selectedRole s = None \<Longrightarrow>
     handleVerifyOTP fetch base s = s"
  by (auto simp: handleVerifyOTP_def truthy_def)

lemma handleVerifyOTP_success:
  assumes "otpEmail s \<noteq> []" "length (otpInput s) = 6" "selectedRole s \<noteq> None"
    and "snd (authApi_verifyOtp fetch base (authToken s)
                \<lparr>verify_email = otpEmail s, verify_otp = otpInput s\<rparr>) = Inr response"
    and "success response" "data response \<noteq> None"
  shows "handleVerifyOTP fetch base s =
     s\<lparr>sent := sent s @ [fst (authApi_verifyOtp fetch base (authToken s)
                \<lparr>verify_email = otpEmail s, verify_otp = otpInput s\<rparr>)],
       error := [], authMode := signin, view := form, otpInput := [], otpEmail := [],
       successMsg := ''Account verified successfully. Please sign in to continue.'',
       isOtpLoading := False\<rparr>"
  using assms
  by (cases "authApi_verifyOtp fetch base (authToken s)
                \<lparr>verify_email = otpEmail s, verify_otp = otpInput s\<rparr>")
     (auto simp: handleVerifyOTP_def truthy_def fetched_def Let_def)

lemma handleVerifyOTP_failure:
  assumes "otpEmail s \<noteq> []" "length (otpInput s) = 6" "selectedRole s \<noteq> None"
    and "snd (authApi_verifyOtp fetch base (authToken s)
                \<lparr>verify_email = otpEmail s, verify_otp = otpInput s\<rparr>) = Inl e"
  shows "handleVerifyOTP fetch base s =
     s\<lparr>sent := sent s @ [fst (authApi_verifyOtp fetch base (authToken s)
                \<lparr>verify_email = otpEmail s, verify_otp = otpInput s\<rparr>)],
       error := or_else (error_message e) ''Verification failed. Please try again.'',
       isOtpLoading := False\<rparr>"
  using assms
  by (cases "authApi_verifyOtp fetch base (authToken s)
                \<lparr>verify_email = otpEmail s, verify_otp = otpInput s\<rparr>")
     (auto simp: handleVerifyOTP_def truthy_def fetched_def Let_def)

lemma handleVerifyOTP_sent:
  "sent (handleVerifyOTP fetch base s) \<noteq> sent s \<Longrightarrow> length (otpInput s) = 6"
  using handleVerifyOTP_guard [of s fetch base] by (cases "length (otpInput s) = 6") auto

lemma onChange_otp_digits: "list_all is_digit (otpInput (onChange_otp v s))"
  by (simp add: onChange_otp_def remove_non_digits_def list_all_iff)

lemma otp_accepted_ex:
  "snd (authApi_verifyOtp otp_accepted default_api_url None
          \<lparr>verify_email = ''ayesha@example.com'', verify_otp = ''123456''\<rparr>)
     = Inr (success_envelope (Some
       \<lparr>verify_user = \<lparr>vu_id = ''u-1'', vu_email = ''ayesha@example.com'',
                        vu_cnic = ''42101-1234567-1'', vu_isVerified = True,
                        vu_role = ''patient''\<rparr>,
        verify_token = ''jwt-1''\<rparr>))"
  by (simp add: authApi_verifyOtp_def apiRequest_snd otp_accepted_def respond_def
        handleApiResponse_def)

lemma otp_refused_ex:
  "snd (authApi_verifyOtp otp_refused default_api_url None
          \<lparr>verify_email = ''ayesha@example.com'', verify_otp = ''123456''\<rparr>)
     = Inl (Error ''Invalid OTP'')"
  by (simp add: authApi_verifyOtp_def apiRequest_snd otp_refused_def respond_def
        handleApiResponse_def failure_envelope_def or_else_opt_def truthy_opt_def truthy_def)

lemma otp_typed: "onChange_otp ''12a34 56'' otp_entry = otp_entry\<lparr>otpInput := ''123456''\<rparr>"
  by (simp add: onChange_otp_def remove_non_digits_def is_digit_def)

text \<open>
  C1. Submitting a code whose length is not six changes nothing and sends nothing;
  \<open>verifyOtp\<close> is called only with six characters entered, and the input keeps digits
  only. When the call returns a success envelope with its data, the controller is back on
  the credential form in sign-in mode, the input is cleared and the confirmation is shown,
  while the stored token and the users handed to the application are as before. When the
  call fails, the controller stays on the code entry and shows the error's message, or
  "Verification failed. Please try again." when that message is empty.
\<close>

theorem verify_otp_flow:
  "(length (otpInput s) \<noteq> 6 \<longrightarrow> handleVerifyOTP fetch base s = s)
   \<and> (sent (handleVerifyOTP fetch base s) \<noteq> sent s \<longrightarrow> length (otpInput s) = 6)
   \<and> list_all is_digit (otpInput (onChange_otp v s))
   \<and> (shows_otp s \<and> length (otpInput s) = 6 \<and> selectedRole s \<noteq> None
       \<and> snd (authApi_verifyOtp fetch base (authToken s)
                \<lparr>verify_email = otpEmail s, verify_otp = otpInput s\<rparr>) = Inr response
       \<and> success response \<and> data response \<noteq> None \<longrightarrow>
         view (handleVerifyOTP fetch base s) = form
         \<and> authMode (handleVerifyOTP fetch base s) = signin
         \<and> otpInput (handleVerifyOTP fetch base s) = []
         \<and> successMsg (handleVerifyOTP fetch base s)
             = ''Account verified successfully. Please sign in to continue.''
         \<and> authToken (handleVerifyOTP fetch base s) = authToken s
         \<and> loginSuccess (handleVerifyOTP fetch base s) = loginSuccess s
         \<and> signupSuccess (handleVerifyOTP fetch base s) = signupSuccess s)
   \<and> (shows_otp s \<and> length (otpInput s) = 6 \<and> selectedRole s \<noteq> None
       \<and> snd (authApi_verifyOtp fetch base (authToken s)
                \<lparr>verify_email = otpEmail s, verify_otp = otpInput s\<rparr>) = Inl e \<longrightarrow>
         view (handleVerifyOTP fetch base s) = otp_verification
         \<and> shows_otp (handleVerifyOTP fetch base s)
         \<and> error (handleVerifyOTP fetch base s)
             = (if error_message e = [] then ''Verification failed. Please try again.''
                else error_message e)
         \<and> authToken (handleVerifyOTP fetch base s) = authToken s)"
proof -
  have 1: "length (otpInput s) \<noteq> 6 \<longrightarrow> handleVerifyOTP fetch base s = s"
    by (simp add: handleVerifyOTP_guard)
  have 2: "sent (handleVerifyOTP fetch base s) \<noteq> sent s \<longrightarrow> length (otpInput s) = 6"
    using handleVerifyOTP_sent by blast
  have 3: "list_all is_digit (otpInput (onChange_otp v s))"
    by (rule onChange_otp_digits)
  have 4: "shows_otp s \<and> length (otpInput s) = 6 \<and> selectedRole s \<noteq> None
       \<and> snd (authApi_verifyOtp fetch base (authToken s)
                \<lparr>verify_email = otpEmail s, verify_otp = otpInput s\<rparr>) = Inr response
       \<and> success response \<and> data response \<noteq> None \<longrightarrow>
         view (handleVerifyOTP fetch base s) = form
         \<and> authMode (handleVerifyOTP fetch base s) = signin
         \<and> otpInput (handleVerifyOTP fetch base s) = []
         \<and> successMsg (handleVerifyOTP fetch base s)
             = ''Account verified successfully. Please sign in to continue.''
         \<and> authToken (handleVerifyOTP fetch base s) = authToken s
         \<and> loginSuccess (handleVerifyOTP fetch base s) = loginSuccess s
         \<and> signupSuccess (handleVerifyOTP fetch base s) = signupSuccess s"
  proof
    assume h: "shows_otp s \<and> length (otpInput s) = 6 \<and> selectedRole s \<noteq> None
       \<and> snd (authApi_verifyOtp fetch base (authToken s)
                \<lparr>verify_email = otpEmail s, verify_otp = otpInput s\<rparr>) = Inr response
       \<and> success response \<and> data response \<noteq> None"
    then have e: "otpEmail s \<noteq> []" by (simp add: shows_otp_def truthy_def)
    have "handleVerifyOTP fetch base s =
       s\<lparr>sent := sent s @ [fst (authApi_verifyOtp fetch base (authToken s)
                \<lparr>verify_email = otpEmail s, verify_otp = otpInput s\<rparr>)],
         error := [], authMode := signin, view := form, otpInput := [], otpEmail := [],
         successMsg := ''Account verified successfully. Please sign in to continue.'',
         isOtpLoading := False\<rparr>"
    proof (rule handleVerifyOTP_success)
      show "otpEmail s \<noteq> []" by (rule e)
      show "length (otpInput s) = 6" "selectedRole s \<noteq> None" "success response"
        "data response \<noteq> None"
        using h by simp_all
      show "snd (authApi_verifyOtp fetch base (authToken s)
                \<lparr>verify_email = otpEmail s, verify_otp = otpInput s\<rparr>) = Inr response"
        using h by simp
    qed
    then show "view (handleVerifyOTP fetch base s) = form
         \<and> authMode (handleVerifyOTP fetch base s) = signin
         \<and> otpInput (handleVerifyOTP fetch base s) = []
         \<and> successMsg (handleVerifyOTP fetch base s)
             = ''Account verified successfully. Please sign in to continue.''
         \<and> authToken (handleVerifyOTP fetch base s) = authToken s
         \<and> loginSuccess (handleVerifyOTP fetch base s) = loginSuccess s
         \<and> signupSuccess (handleVerifyOTP fetch base s) = signupSuccess s"
      by simp
  qed
  have 5: "shows_otp s \<and> length (otpInput s) = 6 \<and> selectedRole s \<noteq> None
       \<and> snd (authApi_verifyOtp fetch base (authToken s)
                \<lparr>verify_email = otpEmail s, verify_otp = otpInput s\<rparr>) = Inl e \<longrightarrow>
         view (handleVerifyOTP fetch base s) = otp_verification
         \<and> shows_otp (handleVerifyOTP fetch base s)
         \<and> error (handleVerifyOTP fetch base s)
             = (if error_message e = [] then ''Verification failed. Please try again.''
                else error_message e)
         \<and> authToken (handleVerifyOTP fetch base s) = authToken s"
  proof
    assume h: "shows_otp s \<and> length (otpInput s) = 6 \<and> selectedRole s \<noteq> None
       \<and> snd (authApi_verifyOtp fetch base (authToken s)
                \<lparr>verify_email = otpEmail s, verify_otp = otpInput s\<rparr>) = Inl e"
    then have m: "otpEmail s \<noteq> []" and v: "view s = otp_verification"
      by (simp_all add: shows_otp_def truthy_def)
    have "handleVerifyOTP fetch base s =
       s\<lparr>sent := sent s @ [fst (authApi_verifyOtp fetch base (authToken s)
                \<lparr>verify_email = otpEmail s, verify_otp = otpInput s\<rparr>)],
         error := or_else (error_message e) ''Verification failed. Please try again.'',
         isOtpLoading := False\<rparr>"
    proof (rule handleVerifyOTP_failure)
      show "otpEmail s \<noteq> []" by (rule m)
      show "length (otpInput s) = 6" "selectedRole s \<noteq> None" using h by simp_all
      show "snd (authApi_verifyOtp fetch base (authToken s)
                \<lparr>verify_email = otpEmail s, verify_otp = otpInput s\<rparr>) = Inl e"
        using h by simp
    qed
    then show "view (handleVerifyOTP fetch base s) = otp_verification
         \<and> shows_otp (handleVerifyOTP fetch base s)
         \<and> error (handleVerifyOTP fetch base s)
             = (if error_message e = [] then ''Verification failed. Please try again.''
                else error_message e)
         \<and> authToken (handleVerifyOTP fetch base s) = authToken s"
      using m v by (simp add: shows_otp_def truthy_def or_else_def)
  qed
  show ?thesis using 1 2 3 4 5 by blast
qed

theorem verify_otp_flow_witness:
  "handleVerifyOTP otp_accepted default_api_url (onChange_otp ''12345'' otp_entry)
     = onChange_otp ''12345'' otp_entry
   \<and> view (handleVerifyOTP otp_accepted default_api_url (onChange_otp ''12a34 56'' otp_entry))
       = form
   \<and> authMode (handleVerifyOTP otp_accepted default_api_url (onChange_otp ''12a34 56'' otp_entry))
       = signin
   \<and> authToken (handleVerifyOTP otp_accepted default_api_url (onChange_otp ''12a34 56'' otp_entry))
       = None
   \<and> loginSuccess (handleVerifyOTP otp_accepted default_api_url
         (onChange_otp ''12a34 56'' otp_entry)) = []
   \<and> view (handleVerifyOTP otp_refused default_api_url (onChange_otp ''12a34 56'' otp_entry))
       = otp_verification
   \<and> error (handleVerifyOTP otp_refused default_api_url (onChange_otp ''12a34 56'' otp_entry))
       = ''Invalid OTP''"
proof -
  have st: "otp_entry\<lparr>otpInput := ''123456''\<rparr> =
     (AuthScreen_init None)\<lparr>selectedRole := Some PATIENT, view := otp_verification,
        authMode := signup, name := ''Ayesha Khan'', email := ''ayesha@example.com'',
        cnic := ''42101-1234567-1'', password := ''secret1'',
        otpEmail := ''ayesha@example.com'', otpInput := ''123456''\<rparr>"
    by (simp add: otp_entry_def signup_form_def handleRoleSelect_def AuthScreen_init_def)
  have a: "handleVerifyOTP otp_accepted default_api_url (onChange_otp ''12345'' otp_entry)
     = onChange_otp ''12345'' otp_entry"
    using verify_otp_flow [of "onChange_otp ''12345'' otp_entry" otp_accepted default_api_url]
    by (simp add: onChange_otp_def remove_non_digits_def is_digit_def)
  have b: "view (handleVerifyOTP otp_accepted default_api_url (otp_entry\<lparr>otpInput := ''123456''\<rparr>))
       = form
   \<and> authMode (handleVerifyOTP otp_accepted default_api_url (otp_entry\<lparr>otpInput := ''123456''\<rparr>))
       = signin
   \<and> authToken (handleVerifyOTP otp_accepted default_api_url (otp_entry\<lparr>otpInput := ''123456''\<rparr>))
       = None
   \<and> loginSuccess (handleVerifyOTP otp_accepted default_api_url
         (otp_entry\<lparr>otpInput := ''123456''\<rparr>)) = []"
    using verify_otp_flow [of "otp_entry\<lparr>otpInput := ''123456''\<rparr>" otp_accepted
            default_api_url _ "success_envelope (Some
       \<lparr>verify_user = \<lparr>vu_id = ''u-1'', vu_email = ''ayesha@example.com'',
                        vu_cnic = ''42101-1234567-1'', vu_isVerified = True,
                        vu_role = ''patient''\<rparr>,
        verify_token = ''jwt-1''\<rparr>)"] otp_accepted_ex
    by (simp add: st AuthScreen_init_def shows_otp_def truthy_def success_envelope_def)
  have c: "view (handleVerifyOTP otp_refused default_api_url (otp_entry\<lparr>otpInput := ''123456''\<rparr>))
       = otp_verification
   \<and> error (handleVerifyOTP otp_refused default_api_url (otp_entry\<lparr>otpInput := ''123456''\<rparr>))
       = ''Invalid OTP''"
    using verify_otp_flow [of "otp_entry\<lparr>otpInput := ''123456''\<rparr>" otp_refused
            default_api_url _ _ "Error ''Invalid OTP''"] otp_refused_ex
    by (simp add: st AuthScreen_init_def shows_otp_def truthy_def)
  show ?thesis using a b c by (simp only: otp_typed simp_thms)
qed

lemma otp_success_no_data_ex:
  "snd (authApi_verifyOtp otp_success_no_data default_api_url None
          \<lparr>verify_email = ''ayesha@example.com'', verify_otp = ''123456''\<rparr>)
     = Inr (success_envelope None)"
  by (simp add: authApi_verifyOtp_def apiRequest_snd otp_success_no_data_def respond_def
        handleApiResponse_def)

text \<open>
  A success envelope alone does not leave the code entry: when the server answers
  \<open>{success: true}\<close> without data, the request is sent and the controller stays where it
  was, in sign-up mode, the code kept, with no confirmation and no error.
\<close>

theorem verify_success_without_data_counterexample:
  "snd (authApi_verifyOtp otp_success_no_data default_api_url None
          \<lparr>verify_email = ''ayesha@example.com'', verify_otp = ''123456''\<rparr>)
     = Inr (success_envelope None)
   \<and> success (success_envelope None :: VerifyOtpResponse ApiResponse)
   \<and> length (sent (handleVerifyOTP otp_success_no_data default_api_url
        (onChange_otp ''123456'' otp_entry))) = 1
   \<and> view (handleVerifyOTP otp_success_no_data default_api_url
        (onChange_otp ''123456'' otp_entry)) = otp_verification
   \<and> authMode (handleVerifyOTP otp_success_no_data default_api_url
        (onChange_otp ''123456'' otp_entry)) = signup
   \<and> otpInput (handleVerifyOTP otp_success_no_data default_api_url
        (onChange_otp ''123456'' otp_entry)) = ''123456''
   \<and> successMsg (handleVerifyOTP otp_success_no_data default_api_url
        (onChange_otp ''123456'' otp_entry)) = []
   \<and> error (handleVerifyOTP otp_success_no_data default_api_url
        (onChange_otp ''123456'' otp_entry)) = []"
proof -
  have st: "onChange_otp ''123456'' otp_entry =
     (AuthScreen_init None)\<lparr>selectedRole := Some PATIENT, view := otp_verification,
        authMode := signup, name := ''Ayesha Khan'', email := ''ayesha@example.com'',
        cnic := ''42101-1234567-1'', password := ''secret1'',
        otpEmail := ''ayesha@example.com'', otpInput := ''123456''\<rparr>"
    by (simp add: onChange_otp_def remove_non_digits_def is_digit_def otp_entry_def
          signup_form_def handleRoleSelect_def AuthScreen_init_def)
  have run: "handleVerifyOTP otp_success_no_data default_api_url
        (onChange_otp ''123456'' otp_entry)
      = (onChange_otp ''123456'' otp_entry)
          \<lparr>sent := [fst (authApi_verifyOtp otp_success_no_data default_api_url None
                   \<lparr>verify_email = ''ayesha@example.com'', verify_otp = ''123456''\<rparr>)],
           error := [], isOtpLoading := False\<rparr>"
    using otp_success_no_data_ex
    by (cases "authApi_verifyOtp otp_success_no_data default_api_url None
                   \<lparr>verify_email = ''ayesha@example.com'', verify_otp = ''123456''\<rparr>")
       (simp add: st handleVerifyOTP_def truthy_def fetched_def Let_def AuthScreen_init_def
          success_envelope_def)
  show ?thesis
    by (simp add: run otp_success_no_data_ex) (simp add: st AuthScreen_init_def success_envelope_def)
qed

section \<open>Resending the code\<close>

lemma handleResendOTP_guard:
  "otpEmail s = [] \<or> resendCooldown s > 0 \<Longrightarrow> handleResendOTP fetch base s = s"
  by (auto simp: handleResendOTP_def truthy_def)

lemma handleResendOTP_sent:
  assumes "otpEmail s \<noteq> []" "resendCooldown s \<le> 0"
  shows "sent (handleResendOTP fetch base s) =
     sent s @ [fst (authApi_resendOtp fetch base (authToken s) (otpEmail s))]"
  using assms
  by (cases "authApi_resendOtp fetch base (authToken s) (otpEmail s)")
     (auto simp: handleResendOTP_def truthy_def fetched_def Let_def split: sum.splits)

lemma handleResendOTP_success:
  assumes "otpEmail s \<noteq> []" "resendCooldown s \<le> 0"
    and "snd (authApi_resendOtp fetch base (authToken s) (otpEmail s)) = Inr response"
    and "success response"
  shows "handleResendOTP fetch base s =
     s\<lparr>sent := sent s @ [fst (authApi_resendOtp fetch base (authToken s) (otpEmail s))],
       resendCooldown := 120, otpInput := [], error := [], isResendLoading := False\<rparr>"
  using assms
  by (cases "authApi_resendOtp fetch base (authToken s) (otpEmail s)")
     (auto simp: handleResendOTP_def truthy_def fetched_def Let_def)

lemma resend_accepted_ex:
  "snd (authApi_resendOtp resend_accepted default_api_url None ''ayesha@example.com'')
     = Inr (success_envelope None)"
  by (simp add: authApi_resendOtp_def apiRequest_snd resend_accepted_def respond_def
        handleApiResponse_def)

text \<open>
  C5. The resend action changes nothing while the countdown is positive. On the displayed
  code entry, with the countdown never negative (it starts at 0 and a tick only lowers a
  positive value), \<open>resendOtp\<close> is called exactly when the countdown is 0. When that call
  succeeds, the countdown is set to 120 and the entered code is cleared.
\<close>

theorem resend_otp_gate:
  "(resendCooldown s > 0 \<longrightarrow> handleResendOTP fetch base s = s)
   \<and> (shows_otp s \<and> resendCooldown s = 0 \<longrightarrow>
        sent (handleResendOTP fetch base s) =
          sent s @ [fst (authApi_resendOtp fetch base (authToken s) (otpEmail s))])
   \<and> (shows_otp s \<and> 0 \<le> resendCooldown s \<longrightarrow>
        (sent (handleResendOTP fetch base s) \<noteq> sent s \<longleftrightarrow> resendCooldown s = 0))
   \<and> (shows_otp s \<and> resendCooldown s = 0
       \<and> snd (authApi_resendOtp fetch base (authToken s) (otpEmail s)) = Inr response
       \<and> success response \<longrightarrow>
        resendCooldown (handleResendOTP fetch base s) = 120
        \<and> otpInput (handleResendOTP fetch base s) = []
        \<and> view (handleResendOTP fetch base s) = otp_verification)
   \<and> resendCooldown (AuthScreen_init token) = 0
   \<and> (0 \<le> resendCooldown s \<longrightarrow> 0 \<le> resendCooldown (tick s))"
proof -
  have 1: "resendCooldown s > 0 \<longrightarrow> handleResendOTP fetch base s = s"
    by (simp add: handleResendOTP_guard)
  have 2: "shows_otp s \<and> resendCooldown s = 0 \<longrightarrow>
        sent (handleResendOTP fetch base s) =
          sent s @ [fst (authApi_resendOtp fetch base (authToken s) (otpEmail s))]"
    by (simp add: handleResendOTP_sent shows_otp_def truthy_def)
  have 3: "shows_otp s \<and> 0 \<le> resendCooldown s \<longrightarrow>
        (sent (handleResendOTP fetch base s) \<noteq> sent s \<longleftrightarrow> resendCooldown s = 0)"
  proof
    assume h: "shows_otp s \<and> 0 \<le> resendCooldown s"
    show "sent (handleResendOTP fetch base s) \<noteq> sent s \<longleftrightarrow> resendCooldown s = 0"
    proof (cases "resendCooldown s = 0")
      case True
      then show ?thesis using 2 h by simp
    next
      case False
      then have "resendCooldown s > 0" using h by simp
      then show ?thesis using 1 False by simp
    qed
  qed
  have 4: "shows_otp s \<and> resendCooldown s = 0
       \<and> snd (authApi_resendOtp fetch base (authToken s) (otpEmail s)) = Inr response
       \<and> success response \<longrightarrow>
        resendCooldown (handleResendOTP fetch base s) = 120
        \<and> otpInput (handleResendOTP fetch base s) = []
        \<and> view (handleResendOTP fetch base s) = otp_verification"
  proof
    assume h: "shows_otp s \<and> resendCooldown s = 0
       \<and> snd (authApi_resendOtp fetch base (authToken s) (otpEmail s)) = Inr response
       \<and> success response"
    then have m: "otpEmail s \<noteq> []" and v: "view s = otp_verification"
      by (simp_all add: shows_otp_def truthy_def)
    have "handleResendOTP fetch base s =
       s\<lparr>sent := sent s @ [fst (authApi_resendOtp fetch base (authToken s) (otpEmail s))],
         resendCooldown := 120, otpInput := [], error := [], isResendLoading := False\<rparr>"
    proof (rule handleResendOTP_success)
      show "otpEmail s \<noteq> []" by (rule m)
      show "resendCooldown s \<le> 0" "success response" using h by simp_all
      show "snd (authApi_resendOtp fetch base (authToken s) (otpEmail s)) = Inr response"
        using h by simp
    qed
    then show "resendCooldown (handleResendOTP fetch base s) = 120
        \<and> otpInput (handleResendOTP fetch base s) = []
        \<and> view (handleResendOTP fetch base s) = otp_verification"
      using v by simp
  qed
  have 5: "resendCooldown (AuthScreen_init token) = 0"
    by (simp add: AuthScreen_init_def)
  have 6: "0 \<le> resendCooldown s \<longrightarrow> 0 \<le> resendCooldown (tick s)"
    by (simp add: tick_def)
  show ?thesis using 1 2 3 4 5 6 by blast
qed

theorem resend_otp_gate_witness:
  "handleResendOTP resend_accepted default_api_url (otp_entry\<lparr>resendCooldown := 300\<rparr>)
     = otp_entry\<lparr>resendCooldown := 300\<rparr>
   \<and> length (sent (handleResendOTP resend_accepted default_api_url
         (otp_entry\<lparr>otpInput := ''123''\<rparr>))) = 1
   \<and> resendCooldown (handleResendOTP resend_accepted default_api_url
         (otp_entry\<lparr>otpInput := ''123''\<rparr>)) = 120
   \<and> otpInput (handleResendOTP resend_accepted default_api_url
         (otp_entry\<lparr>otpInput := ''123''\<rparr>)) = []
   \<and> resendCooldown (tick (otp_entry\<lparr>resendCooldown := 300\<rparr>)) = 299"
proof -
  have st: "otp_entry =
     (AuthScreen_init None)\<lparr>selectedRole := Some PATIENT, view := otp_verification,
        authMode := signup, name := ''Ayesha Khan'', email := ''ayesha@example.com'',
        cnic := ''42101-1234567-1'', password := ''secret1'',
        otpEmail := ''ayesha@example.com''\<rparr>"
    by (simp add: otp_entry_def signup_form_def handleRoleSelect_def AuthScreen_init_def)
  have a: "handleResendOTP resend_accepted default_api_url (otp_entry\<lparr>resendCooldown := 300\<rparr>)
     = otp_entry\<lparr>resendCooldown := 300\<rparr>"
    using resend_otp_gate [of "otp_entry\<lparr>resendCooldown := 300\<rparr>" resend_accepted
            default_api_url]
    by simp
  have b: "length (sent (handleResendOTP resend_accepted default_api_url
         (otp_entry\<lparr>otpInput := ''123''\<rparr>))) = 1
   \<and> resendCooldown (handleResendOTP resend_accepted default_api_url
         (otp_entry\<lparr>otpInput := ''123''\<rparr>)) = 120
   \<and> otpInput (handleResendOTP resend_accepted default_api_url
         (otp_entry\<lparr>otpInput := ''123''\<rparr>)) = []"
    using resend_otp_gate [of "otp_entry\<lparr>otpInput := ''123''\<rparr>" resend_accepted
            default_api_url "success_envelope None"] resend_accepted_ex
    by (simp add: st AuthScreen_init_def shows_otp_def truthy_def success_envelope_def)
  have c: "resendCooldown (tick (otp_entry\<lparr>resendCooldown := 300\<rparr>)) = 299"
    by (simp add: tick_def)
  show ?thesis using a b c by blast
qed

end
